theory Spec2Isabelle
  imports Complex_Main "HOL-Library.Multiset"
begin

section \<open>Shared data of the two drivers\<close>

text \<open>
  The repository holds two scripts: \<^verbatim>\<open>mnist/search.py\<close> (architecture search) and
  \<^verbatim>\<open>kws/fine-tune.py\<close> (fine-tuning of a searched architecture). Both are Python;
  every exception that can escape a function is a value \<open>Inl e\<close> of its result.
  Floating-point numbers are read as reals: the decimal literal \<^verbatim>\<open>1e-2\<close> is the
  real \<open>1 / 100\<close>, and comparisons of floats are comparisons of the reals they stand for.
\<close>

datatype error = ZeroDivisionError | UnboundLocalError | KeyError | TypeError | AttributeError

text \<open>
  The namespace returned by \<^verbatim>\<open>parser.parse_args()\<close>. Both parsers declare the same
  options; \<^verbatim>\<open>--found-model\<close> exists in the fine-tune parser only.
\<close>

record args =
  arch :: string
  batch_size :: int
  test_batch_size :: int
  epochs :: int
  lr :: real
  cd_size :: real
  cd_ops :: real
  size_target :: real
  gamma :: real
  no_cuda :: bool
  eval_complexity :: bool
  dry_run :: bool
  seed :: int
  log_interval :: int
  found_model :: "string option"

section \<open>Complexity-aware loss of the search driver (search.py, lines 140-148)\<close>

text \<open>
  \<^verbatim>\<open>model.size_dict\<close> and \<^verbatim>\<open>model.ops_dict\<close> map a layer name to a 0-dimensional
  tensor. Python's \<^verbatim>\<open>sum\<close> starts from the integer \<^verbatim>\<open>0\<close> and adds from the left, so
  the sum of an empty dictionary is a plain number and not a tensor; \<^verbatim>\<open>torch.abs\<close>
  rejects a plain number and a plain number has no \<^verbatim>\<open>.item()\<close>.
\<close>

datatype pyval = PyNum real | Tensor real

fun val_of :: "pyval \<Rightarrow> real" where
  "val_of (PyNum v) = v"
| "val_of (Tensor v) = v"

type_synonym complexity_dict = "(string \<times> real) list"

definition py_sum :: "real list \<Rightarrow> pyval" where
  "py_sum vs = (if vs = [] then PyNum 0 else Tensor (foldl (+) 0 vs))"

fun py_sub :: "pyval \<Rightarrow> real \<Rightarrow> pyval" where
  "py_sub (PyNum v) c = PyNum (v - c)"
| "py_sub (Tensor v) c = Tensor (v - c)"

fun py_imul :: "pyval \<Rightarrow> real \<Rightarrow> pyval" where
  "py_imul (PyNum v) c = PyNum (v * c)"
| "py_imul (Tensor v) c = Tensor (v * c)"

fun torch_abs :: "pyval \<Rightarrow> error + real" where
  "torch_abs (PyNum v) = Inl TypeError"
| "torch_abs (Tensor v) = Inr \<bar>v\<bar>"

fun item :: "pyval \<Rightarrow> error + real" where
  "item (PyNum v) = Inl AttributeError"
| "item (Tensor v) = Inr v"

record losses =
  loss :: real
  loss_size :: real
  loss_ops :: pyval

text \<open>
  Lines 140-148 of \<^verbatim>\<open>train\<close> in search.py; \<open>nll\<close> is the value of
  \<^verbatim>\<open>F.nll_loss(output, target)\<close>.
\<close>

definition search_loss :: "args \<Rightarrow> real \<Rightarrow> complexity_dict \<Rightarrow> complexity_dict \<Rightarrow> error + losses" where
  "search_loss a nll size_dict ops_dict =
     (case torch_abs (py_sub (py_sum (map snd size_dict)) (size_target a)) of
        Inl e \<Rightarrow> Inl e
      | Inr abs_diff \<Rightarrow>
          (let l_size = abs_diff * cd_size a;
               l_ops = py_imul (py_sum (map snd ops_dict)) (cd_ops a)
           in Inr \<lparr>loss = nll + (l_size + val_of l_ops), loss_size = l_size, loss_ops = l_ops\<rparr>))"

text \<open>The aggregates of the specification: the sum of the per-layer values.\<close>

definition aggregate :: "complexity_dict \<Rightarrow> real" where
  "aggregate d = sum_list (map snd d)"

section \<open>Learning-rate schedule of the fine-tune driver (fine-tune.py, lines 172-182)\<close>

record param_group =
  pg_lr :: real
  pg_weight_decay :: real

text \<open>
  An optimizer: its parameter groups and its own slots (moment estimates and the like),
  which the scripts never read.
\<close>

record 'o optimizer =
  param_groups :: "param_group list"
  slots :: 'o

text \<open>
  The rate chosen by the \<^verbatim>\<open>if\<close>/\<^verbatim>\<open>elif\<close> chain of lines 173-180, which
  \<^verbatim>\<open>adjust_learning_rate\<close> then writes into every parameter group (lines 181-182).
\<close>

definition schedule_lr :: "int \<Rightarrow> real" where
  "schedule_lr epoch =
     (if epoch < 50 then 1 / 100
      else if epoch < 100 then 5 / 1000
      else if epoch < 150 then 25 / 10000
      else 1 / 1000)"

definition adjust_learning_rate :: "'o optimizer \<Rightarrow> int \<Rightarrow> 'o optimizer" where
  "adjust_learning_rate opt epoch =
     (let new_lr = schedule_lr epoch
      in opt\<lparr>param_groups := map (\<lambda>g. g\<lparr>pg_lr := new_lr\<rparr>) (param_groups opt)\<rparr>)"

definition rates :: "'o optimizer \<Rightarrow> real list" where
  "rates opt = map pg_lr (param_groups opt)"

section \<open>Networks, samples and loaders\<close>

text \<open>
  The networks come from the \<^verbatim>\<open>models\<close> package and the optimizers and loaders from
  torch; neither is part of the two scripts. A network is taken as a parameter: what the
  scripts call on it. \<open>'p\<close> is what \<^verbatim>\<open>model.state_dict()\<close> holds, \<open>'o\<close> the optimizer's own
  slots and \<open>'x\<close> one input; a label is a class index.
  \<^item> \<open>forward\<close> gives the row of class scores of one input, in training or evaluation
    mode (the flag set by \<^verbatim>\<open>model.train()\<close> and \<^verbatim>\<open>model.eval()\<close>). The fine-tune script
    passes each batch through \<^verbatim>\<open>squeeze(0)\<close>, which leaves a batch of two or more samples
    as it is, and through two transpositions before calling the model; \<open>forward\<close> stands
    for the transpositions and the model together, and a batch is read as the list of
    its samples whatever its length;
  \<^item> \<open>sample_loss\<close> is the loss of one row against its label (negative log-likelihood in
    search.py, cross-entropy in fine-tune.py);
  \<^item> \<open>size_dict\<close> and \<open>ops_dict\<close> are the dictionaries a forward pass leaves on the model,
    a function of the current parameters;
  \<^item> \<open>update\<close> is \<^verbatim>\<open>loss.backward(); optimizer.step()\<close> on one batch: it reads the rates of
    the parameter groups and gives the new slots and parameters.
\<close>

type_synonym 'x sample = "'x \<times> nat"
type_synonym 'x batch = "'x sample list"

record ('p, 'o, 'x) network =
  forward :: "bool \<Rightarrow> 'p \<Rightarrow> 'x \<Rightarrow> real list"
  sample_loss :: "real list \<Rightarrow> nat \<Rightarrow> real"
  size_dict :: "'p \<Rightarrow> complexity_dict"
  ops_dict :: "'p \<Rightarrow> complexity_dict"
  update :: "args \<Rightarrow> param_group list \<Rightarrow> 'o \<Rightarrow> 'p \<Rightarrow> 'x batch \<Rightarrow> 'o \<times> 'p"

record 'p model_state =
  params :: 'p
  training :: bool

text \<open>
  A \<^verbatim>\<open>DataLoader\<close>: the dataset it was built on (\<^verbatim>\<open>loader.dataset\<close>) and the batches
  one iteration over it yields; \<^verbatim>\<open>len(loader)\<close> is the number of batches.
\<close>

record 'x loader =
  dataset :: "'x sample list"
  batches :: "'x batch list"

text \<open>A loader enumerates its dataset: every sample once, in some order and batching.\<close>

definition enumerates :: "'x loader \<Rightarrow> bool" where
  "enumerates l = (mset (concat (batches l)) = mset (dataset l))"

section \<open>Evaluation loop (search.py, lines 158-174; fine-tune.py, lines 203-221)\<close>

text \<open>
  \<^verbatim>\<open>output.argmax(dim=1)\<close>: for each row the index of the first maximal score. torch
  rejects a row of no classes; such a row predicts nothing here.
\<close>

fun argmax_from :: "nat \<Rightarrow> real \<Rightarrow> nat \<Rightarrow> real list \<Rightarrow> nat" where
  "argmax_from best best_v i [] = best"
| "argmax_from best best_v i (v # vs) =
     (if best_v < v then argmax_from i v (Suc i) vs else argmax_from best best_v (Suc i) vs)"

definition argmax :: "real list \<Rightarrow> nat option" where
  "argmax row = (case row of [] \<Rightarrow> None | v # vs \<Rightarrow> Some (argmax_from 0 v 1 vs))"

text \<open>The loss of a batch with \<^verbatim>\<open>reduction='sum'\<close>, and its number of correct predictions.\<close>

definition batch_loss_sum :: "('p, 'o, 'x) network \<Rightarrow> 'p \<Rightarrow> 'x batch \<Rightarrow> real" where
  "batch_loss_sum N p b = sum_list (map (\<lambda>(x, y). sample_loss N (forward N False p x) y) b)"

definition batch_correct :: "('p, 'o, 'x) network \<Rightarrow> 'p \<Rightarrow> 'x batch \<Rightarrow> nat" where
  "batch_correct N p b = length (filter (\<lambda>(x, y). argmax (forward N False p x) = Some y) b)"

text \<open>The \<^verbatim>\<open>for data, target in test_loader\<close> loop with its two accumulators.\<close>

fun test_batches :: "('p, 'o, 'x) network \<Rightarrow> 'p \<Rightarrow> 'x batch list \<Rightarrow> real \<times> nat \<Rightarrow> real \<times> nat" where
  "test_batches N p [] acc = acc"
| "test_batches N p (b # bs) (test_loss, correct) =
     test_batches N p bs (test_loss + batch_loss_sum N p b, correct + batch_correct N p b)"

text \<open>The line an evaluation prints, before the numbers are formatted.\<close>

record eval_report =
  scope :: string
  average_loss :: real
  n_correct :: nat
  n_total :: nat
  accuracy :: real

text \<open>
  What a call of \<^verbatim>\<open>test\<close> leaves: the model, the printed report and the value returned
  (\<open>None\<close> is Python's \<^verbatim>\<open>None\<close>).
\<close>

record 'p test_result =
  model_after :: "'p model_state"
  report :: eval_report
  returned :: "real option"

text \<open>\<^verbatim>\<open>test\<close> of fine-tune.py; the division by the length of an empty dataset raises.\<close>

definition test_ft :: "('p, 'o, 'x) network \<Rightarrow> 'p model_state \<Rightarrow> 'x loader \<Rightarrow> string
    \<Rightarrow> error + 'p test_result" where
  "test_ft N m l sc =
     (let m1 = m\<lparr>training := False\<rparr>;
          (test_loss, correct) = test_batches N (params m1) (batches l) (0, 0);
          n = length (dataset l)
      in if n = 0 then Inl ZeroDivisionError
         else (let test_loss = test_loss / real n
               in Inr \<lparr>model_after = m1,
                       report = \<lparr>scope = sc, average_loss = test_loss, n_correct = correct,
                                 n_total = n, accuracy = 100 * real correct / real n\<rparr>,
                       returned = Some (100 * real correct / real n)\<rparr>))"

text \<open>\<^verbatim>\<open>test\<close> of search.py: the same loop and report, and no \<^verbatim>\<open>return\<close> statement.\<close>

definition test_search :: "('p, 'o, 'x) network \<Rightarrow> 'p model_state \<Rightarrow> 'x loader
    \<Rightarrow> error + 'p test_result" where
  "test_search N m l =
     (let m1 = m\<lparr>training := False\<rparr>;
          (test_loss, correct) = test_batches N (params m1) (batches l) (0, 0);
          n = length (dataset l)
      in if n = 0 then Inl ZeroDivisionError
         else (let test_loss = test_loss / real n
               in Inr \<lparr>model_after = m1,
                       report = \<lparr>scope = ''Test'', average_loss = test_loss, n_correct = correct,
                                 n_total = n, accuracy = 100 * real correct / real n\<rparr>,
                       returned = None\<rparr>))"

text \<open>
  The quantities of the specification, over the whole dataset: the number of samples
  whose predicted class is the label, and the sum of the per-sample losses.
\<close>

definition correct_count :: "('p, 'o, 'x) network \<Rightarrow> 'p \<Rightarrow> 'x sample list \<Rightarrow> nat" where
  "correct_count N p ds = length (filter (\<lambda>(x, y). argmax (forward N False p x) = Some y) ds)"

definition loss_total :: "('p, 'o, 'x) network \<Rightarrow> 'p \<Rightarrow> 'x sample list \<Rightarrow> real" where
  "loss_total N p ds = sum_list (map (\<lambda>(x, y). sample_loss N (forward N False p x) y) ds)"

section \<open>Training loops (search.py, lines 134-156; fine-tune.py, lines 184-201)\<close>

text \<open>The progress line of a training loop, before the numbers are formatted.\<close>

record progress =
  p_epoch :: int
  p_seen :: int
  p_total :: nat
  p_percent :: real
  p_loss :: real
  p_size_loss :: "real option"
  p_ops_loss :: "real option"

text \<open>
  What a run does that is seen from outside, in order: every \<^verbatim>\<open>optimizer.step()\<close> with
  the epoch it belongs to and the rates the parameter groups hold at that moment, every
  printed line, and every \<^verbatim>\<open>torch.save\<close> with its path.
\<close>

datatype event =
    Step int "real list"
  | Progress progress
  | Report eval_report
  | Complexity real real
  | Saved string
  | Summary string real int

text \<open>
  The state a driver threads through its calls: the model, the optimizer, the journal of
  events and the files under \<^verbatim>\<open>saved_models/\<close> (a path mapped to the state dictionary
  stored there; the directory is taken to exist).
\<close>

record ('p, 'o) run =
  model :: "'p model_state"
  optimizer :: "'o optimizer"
  journal :: "event list"
  files :: "string \<rightharpoonup> 'p"

text \<open>
  The classification loss of a training batch (the default \<^verbatim>\<open>reduction='mean'\<close>), computed
  in training mode. A loader never yields an empty batch.
\<close>

definition batch_loss_mean :: "('p, 'o, 'x) network \<Rightarrow> 'p \<Rightarrow> 'x batch \<Rightarrow> real" where
  "batch_loss_mean N p b =
     sum_list (map (\<lambda>(x, y). sample_loss N (forward N True p x) y) b) / real (length b)"

text \<open>
  The body of \<^verbatim>\<open>for batch_idx, (data, target) in enumerate(train_loader)\<close> of
  fine-tune.py. \<open>n_samples\<close> is \<^verbatim>\<open>len(train_loader.dataset)\<close> and \<open>n_batches\<close> is
  \<^verbatim>\<open>len(train_loader)\<close>; \<^verbatim>\<open>batch_idx % args.log_interval\<close> raises when the interval
  is zero, and \<^verbatim>\<open>break\<close> ends the loop.
\<close>

fun train_ft_batches :: "args \<Rightarrow> ('p, 'o, 'x) network \<Rightarrow> nat \<Rightarrow> nat \<Rightarrow> int \<Rightarrow> int
    \<Rightarrow> 'x batch list \<Rightarrow> ('p, 'o) run \<Rightarrow> error + ('p, 'o) run" where
  "train_ft_batches a N n_samples n_batches epoch batch_idx [] s = Inr s"
| "train_ft_batches a N n_samples n_batches epoch batch_idx (b # bs) s =
     (let p = params (model s);
          l = batch_loss_mean N p b;
          u = update N a (param_groups (optimizer s)) (slots (optimizer s)) p b;
          s1 = s\<lparr>model := (model s)\<lparr>params := snd u\<rparr>,
                 optimizer := (optimizer s)\<lparr>slots := fst u\<rparr>,
                 journal := journal s @ [Step epoch (rates (optimizer s))]\<rparr>
      in if log_interval a = 0 then Inl ZeroDivisionError
         else if batch_idx mod log_interval a = 0 then
           (let s2 = s1\<lparr>journal := journal s1 @
                        [Progress \<lparr>p_epoch = epoch, p_seen = batch_idx * int (length b),
                                   p_total = n_samples,
                                   p_percent = 100 * real_of_int batch_idx / real n_batches,
                                   p_loss = l, p_size_loss = None, p_ops_loss = None\<rparr>]\<rparr>
            in if dry_run a then Inr s2
               else train_ft_batches a N n_samples n_batches epoch (batch_idx + 1) bs s2)
         else train_ft_batches a N n_samples n_batches epoch (batch_idx + 1) bs s1)"

definition train_ft :: "args \<Rightarrow> ('p, 'o, 'x) network \<Rightarrow> ('p, 'o) run \<Rightarrow> 'x loader \<Rightarrow> int
    \<Rightarrow> error + ('p, 'o) run" where
  "train_ft a N s train_loader epoch =
     train_ft_batches a N (length (dataset train_loader)) (length (batches train_loader)) epoch 0
       (batches train_loader) (s\<lparr>model := (model s)\<lparr>training := True\<rparr>\<rparr>)"

text \<open>
  The same loop in search.py, with the complexity-aware loss; the progress line calls
  \<^verbatim>\<open>.item()\<close> on the three losses.
\<close>

fun train_search_batches :: "args \<Rightarrow> ('p, 'o, 'x) network \<Rightarrow> nat \<Rightarrow> nat \<Rightarrow> int \<Rightarrow> int
    \<Rightarrow> 'x batch list \<Rightarrow> ('p, 'o) run \<Rightarrow> error + ('p, 'o) run" where
  "train_search_batches a N n_samples n_batches epoch batch_idx [] s = Inr s"
| "train_search_batches a N n_samples n_batches epoch batch_idx (b # bs) s =
     (let p = params (model s)
      in case search_loss a (batch_loss_mean N p b) (size_dict N p) (ops_dict N p) of
           Inl e \<Rightarrow> Inl e
         | Inr ls \<Rightarrow>
            (let u = update N a (param_groups (optimizer s)) (slots (optimizer s)) p b;
                 s1 = s\<lparr>model := (model s)\<lparr>params := snd u\<rparr>,
                        optimizer := (optimizer s)\<lparr>slots := fst u\<rparr>,
                        journal := journal s @ [Step epoch (rates (optimizer s))]\<rparr>
             in if log_interval a = 0 then Inl ZeroDivisionError
                else if batch_idx mod log_interval a = 0 then
                  (case item (loss_ops ls) of
                     Inl e \<Rightarrow> Inl e
                   | Inr l_ops \<Rightarrow>
                      (let s2 = s1\<lparr>journal := journal s1 @
                                   [Progress \<lparr>p_epoch = epoch, p_seen = batch_idx * int (length b),
                                              p_total = n_samples,
                                              p_percent = 100 * real_of_int batch_idx / real n_batches,
                                              p_loss = loss ls, p_size_loss = Some (loss_size ls),
                                              p_ops_loss = Some l_ops\<rparr>]\<rparr>
                       in if dry_run a then Inr s2
                          else train_search_batches a N n_samples n_batches epoch (batch_idx + 1) bs s2))
                else train_search_batches a N n_samples n_batches epoch (batch_idx + 1) bs s1))"

definition train_search :: "args \<Rightarrow> ('p, 'o, 'x) network \<Rightarrow> ('p, 'o) run \<Rightarrow> 'x loader \<Rightarrow> int
    \<Rightarrow> error + ('p, 'o) run" where
  "train_search a N s train_loader epoch =
     train_search_batches a N (length (dataset train_loader)) (length (batches train_loader)) epoch 0
       (batches train_loader) (s\<lparr>model := (model s)\<lparr>training := True\<rparr>\<rparr>)"

section \<open>What the drivers take from outside\<close>

text \<open>
  Keyword arguments are a Python dictionary; \<^verbatim>\<open>d.update(e)\<close> appends here, the keys of
  the two dictionaries being distinct.
\<close>

datatype kwval = KInt int | KBool bool

type_synonym kwargs = "(string \<times> kwval) list"

text \<open>
  The surroundings of a run: whether CUDA is available, the splits the dataset
  collaborators deliver, how torch's \<^verbatim>\<open>DataLoader\<close> cuts a dataset into batches under
  given keyword arguments, the constructor found under an architecture name (called with
  the path of the searched model and the fine-tune flag), the optimizer's initial slots,
  the files present before the run, and Python's \<^verbatim>\<open>:.1e\<close> formatting of a float.
\<close>

record ('p, 'o, 'x) env =
  cuda_available :: bool
  train_data :: "'x sample list"
  val_data :: "'x sample list"
  test_data :: "'x sample list"
  batching :: "'x sample list \<Rightarrow> kwargs \<Rightarrow> 'x batch list"
  build_model :: "string \<Rightarrow> string option \<Rightarrow> bool \<Rightarrow> 'p"
  initial_slots :: 'o
  saved_models :: "string \<rightharpoonup> 'p"
  fmt_1e :: "real \<Rightarrow> string"

definition DataLoader :: "('p, 'o, 'x) env \<Rightarrow> 'x sample list \<Rightarrow> kwargs \<Rightarrow> 'x loader" where
  "DataLoader E ds kw = \<lparr>dataset = ds, batches = batching E ds kw\<rparr>"

text \<open>
  The path of the checkpoint:
  \<^verbatim>\<open>f"saved_models/ft_{args.arch}_target-{args.size_target:.1e}_cdops-{args.cd_ops:.1e}.pth.tar"\<close>
  in fine-tune.py, and the same with \<^verbatim>\<open>srch_\<close> in search.py.
\<close>

definition checkpoint_path :: "(real \<Rightarrow> string) \<Rightarrow> string \<Rightarrow> args \<Rightarrow> string" where
  "checkpoint_path fmt prefix a =
     ''saved_models/'' @ prefix @ arch a @ ''_target-'' @ fmt (size_target a)
       @ ''_cdops-'' @ fmt (cd_ops a) @ ''.pth.tar''"

section \<open>Fine-tune driver (fine-tune.py, lines 43-170)\<close>

text \<open>
  The locals of \<^verbatim>\<open>main\<close> that select the checkpoint. The two dictionaries are keyed by
  \<^verbatim>\<open>str(epoch)\<close>, which is one-to-one, so the epoch itself is the key here.
\<close>

record selector =
  val_acc :: "int \<rightharpoonup> real"
  test_acc :: "int \<rightharpoonup> real"
  best_epoch :: int

text \<open>
  One turn of the loop of lines 157-166: train, evaluate on the validation and the test
  split, adjust the learning rate, then compare and save. A missing key raises
  \<^verbatim>\<open>KeyError\<close>; comparing a \<^verbatim>\<open>None\<close> raises \<^verbatim>\<open>TypeError\<close>.
\<close>

definition ft_epoch :: "args \<Rightarrow> ('p, 'o, 'x) network \<Rightarrow> 'x loader \<Rightarrow> 'x loader \<Rightarrow> 'x loader
    \<Rightarrow> string \<Rightarrow> int \<Rightarrow> ('p, 'o) run \<times> selector \<Rightarrow> error + ('p, 'o) run \<times> selector" where
  "ft_epoch a N train_loader val_loader test_loader path epoch sk =
     (case train_ft a N (fst sk) train_loader epoch of
        Inl e \<Rightarrow> Inl e
      | Inr s1 \<Rightarrow>
     (case test_ft N (model s1) val_loader ''Validation'' of
        Inl e \<Rightarrow> Inl e
      | Inr rv \<Rightarrow>
     (case test_ft N (model_after rv) test_loader ''Test'' of
        Inl e \<Rightarrow> Inl e
      | Inr rt \<Rightarrow>
     (case (returned rv, returned rt) of
        (Some v, Some t) \<Rightarrow>
          (let k1 = (snd sk)\<lparr>val_acc := (val_acc (snd sk))(epoch \<mapsto> v),
                             test_acc := (test_acc (snd sk))(epoch \<mapsto> t)\<rparr>;
               s2 = s1\<lparr>model := model_after rt,
                      journal := journal s1 @ [Report (report rv), Report (report rt)],
                      optimizer := adjust_learning_rate (optimizer s1) epoch\<rparr>
           in case val_acc k1 (best_epoch k1) of
                None \<Rightarrow> Inl KeyError
              | Some best_v \<Rightarrow>
                  if v \<ge> best_v
                  then Inr (s2\<lparr>files := (files s2)(path \<mapsto> params (model s2)),
                                journal := journal s2 @ [Saved path]\<rparr>,
                            k1\<lparr>best_epoch := epoch\<rparr>)
                  else Inr (s2, k1))
      | _ \<Rightarrow> Inl TypeError))))"

fun ft_epochs :: "args \<Rightarrow> ('p, 'o, 'x) network \<Rightarrow> 'x loader \<Rightarrow> 'x loader \<Rightarrow> 'x loader
    \<Rightarrow> string \<Rightarrow> int list \<Rightarrow> ('p, 'o) run \<times> selector \<Rightarrow> error + ('p, 'o) run \<times> selector" where
  "ft_epochs a N train_loader val_loader test_loader path [] sk = Inr sk"
| "ft_epochs a N train_loader val_loader test_loader path (epoch # rest) sk =
     (case ft_epoch a N train_loader val_loader test_loader path epoch sk of
        Inl e \<Rightarrow> Inl e
      | Inr sk1 \<Rightarrow> ft_epochs a N train_loader val_loader test_loader path rest sk1)"

text \<open>
  \<^verbatim>\<open>main\<close> of fine-tune.py. \<^verbatim>\<open>cuda_kwargs\<close> is assigned under \<^verbatim>\<open>if use_cuda:\<close> only and
  is read by the three \<^verbatim>\<open>DataLoader(..., **cuda_kwargs)\<close> calls: reading it unassigned
  raises \<^verbatim>\<open>UnboundLocalError\<close>. \<^verbatim>\<open>train_kwargs\<close> and \<^verbatim>\<open>test_kwargs\<close> are built and
  never read. A new module is in training mode; Adam gets one parameter group with
  \<^verbatim>\<open>lr=args.lr\<close> and \<^verbatim>\<open>weight_decay=1e-4\<close>. \<^verbatim>\<open>range(1, args.epochs + 1)\<close> is
  \<open>[1..epochs a]\<close>.
\<close>

definition ft_main :: "args \<Rightarrow> ('p, 'o, 'x) env \<Rightarrow> ('p, 'o, 'x) network
    \<Rightarrow> error + ('p, 'o) run \<times> selector" where
  "ft_main a E N =
     (let use_cuda = (\<not> no_cuda a \<and> cuda_available E);
          cuda = [(''num_workers'', KInt 4), (''pin_memory'', KBool True), (''shuffle'', KBool True)];
          cuda_kwargs = (if use_cuda then Some cuda else None);
          train_kwargs = [(''batch_size'', KInt (batch_size a))] @ (if use_cuda then cuda else []);
          test_kwargs = [(''batch_size'', KInt (test_batch_size a))] @ (if use_cuda then cuda else [])
      in case cuda_kwargs of
           None \<Rightarrow> Inl UnboundLocalError
         | Some ck \<Rightarrow>
            (let train_loader = DataLoader E (train_data E) ((''batch_size'', KInt (batch_size a)) # ck);
                 val_loader = DataLoader E (val_data E) ((''batch_size'', KInt (test_batch_size a)) # ck);
                 test_loader = DataLoader E (test_data E) ((''batch_size'', KInt (test_batch_size a)) # ck);
                 s0 = \<lparr>model = \<lparr>params = build_model E (arch a) (found_model a) True, training = True\<rparr>,
                       optimizer = \<lparr>param_groups = [\<lparr>pg_lr = lr a, pg_weight_decay = 1 / 10000\<rparr>],
                                    slots = initial_slots E\<rparr>,
                       journal = [], files = saved_models E\<rparr>;
                 k0 = \<lparr>val_acc = [0 \<mapsto> 0], test_acc = Map.empty, best_epoch = 0\<rparr>
             in case ft_epochs a N train_loader val_loader test_loader
                       (checkpoint_path (fmt_1e E) ''ft_'' a) [1..epochs a] (s0, k0) of
                  Inl e \<Rightarrow> Inl e
                | Inr sk \<Rightarrow>
                   (case val_acc (snd sk) (best_epoch (snd sk)) of
                      None \<Rightarrow> Inl KeyError
                    | Some v \<Rightarrow>
                       (case test_acc (snd sk) (best_epoch (snd sk)) of
                          None \<Rightarrow> Inl KeyError
                        | Some t \<Rightarrow>
                            Inr ((fst sk)\<lparr>journal := journal (fst sk) @
                                    [Summary ''Best Val Acc'' v (best_epoch (snd sk)),
                                     Summary ''Test Acc'' t (best_epoch (snd sk))]\<rparr>,
                                 snd sk)))))"

section \<open>Search driver (search.py, lines 38-132)\<close>

text \<open>
  \<^verbatim>\<open>StepLR(optimizer, step_size=1, gamma=args.gamma)\<close>: each \<^verbatim>\<open>scheduler.step()\<close>
  multiplies the rate of every parameter group by \<open>gamma\<close>.
\<close>

definition scheduler_step :: "real \<Rightarrow> 'o optimizer \<Rightarrow> 'o optimizer" where
  "scheduler_step g opt = opt\<lparr>param_groups := map (\<lambda>gr. gr\<lparr>pg_lr := pg_lr gr * g\<rparr>) (param_groups opt)\<rparr>"

text \<open>\<^verbatim>\<open>.clone()\<close> exists on a tensor only.\<close>

fun clone :: "pyval \<Rightarrow> error + real" where
  "clone (PyNum v) = Inl AttributeError"
| "clone (Tensor v) = Inr v"

text \<open>
  \<^verbatim>\<open>sum(model.size_dict.values()).clone()...\<close> and the same for the operations (lines
  107-108 and 123-124).
\<close>

definition complexity :: "('p, 'o, 'x) network \<Rightarrow> 'p \<Rightarrow> error + real \<times> real" where
  "complexity N p =
     (case clone (py_sum (map snd (size_dict N p))) of
        Inl e \<Rightarrow> Inl e
      | Inr sz \<Rightarrow>
         (case clone (py_sum (map snd (ops_dict N p))) of
            Inl e \<Rightarrow> Inl e
          | Inr ops \<Rightarrow> Inr (sz, ops)))"

text \<open>One turn of the loop of lines 117-120.\<close>

definition search_epoch :: "args \<Rightarrow> ('p, 'o, 'x) network \<Rightarrow> 'x loader \<Rightarrow> 'x loader \<Rightarrow> int
    \<Rightarrow> ('p, 'o) run \<Rightarrow> error + ('p, 'o) run" where
  "search_epoch a N train_loader test_loader epoch s =
     (case train_search a N s train_loader epoch of
        Inl e \<Rightarrow> Inl e
      | Inr s1 \<Rightarrow>
         (case test_search N (model s1) test_loader of
            Inl e \<Rightarrow> Inl e
          | Inr r \<Rightarrow>
             Inr (s1\<lparr>model := model_after r,
                     journal := journal s1 @ [Report (report r)],
                     optimizer := scheduler_step (gamma a) (optimizer s1)\<rparr>)))"

fun search_epochs :: "args \<Rightarrow> ('p, 'o, 'x) network \<Rightarrow> 'x loader \<Rightarrow> 'x loader \<Rightarrow> int list
    \<Rightarrow> ('p, 'o) run \<Rightarrow> error + ('p, 'o) run" where
  "search_epochs a N train_loader test_loader [] s = Inr s"
| "search_epochs a N train_loader test_loader (epoch # rest) s =
     (case search_epoch a N train_loader test_loader epoch s of
        Inl e \<Rightarrow> Inl e
      | Inr s1 \<Rightarrow> search_epochs a N train_loader test_loader rest s1)"

text \<open>
  \<^verbatim>\<open>main\<close> of search.py. Here the CUDA keyword arguments are merged into
  \<^verbatim>\<open>train_kwargs\<close> and \<^verbatim>\<open>test_kwargs\<close>, which the loaders are built from. Adadelta gets
  one parameter group with \<^verbatim>\<open>lr=args.lr\<close> and no weight decay. The lines printing the
  alive channels of each layer read \<^verbatim>\<open>model.alive_ch\<close> only and are left out. The model
  is saved once, after the loop.
\<close>

definition search_main :: "args \<Rightarrow> ('p, 'o, 'x) env \<Rightarrow> ('p, 'o, 'x) network \<Rightarrow> error + ('p, 'o) run" where
  "search_main a E N =
     (let use_cuda = (\<not> no_cuda a \<and> cuda_available E);
          cuda_kwargs = [(''num_workers'', KInt 1), (''pin_memory'', KBool True),
                         (''shuffle'', KBool True)];
          train_kwargs = [(''batch_size'', KInt (batch_size a))] @ (if use_cuda then cuda_kwargs else []);
          test_kwargs = [(''batch_size'', KInt (test_batch_size a))] @ (if use_cuda then cuda_kwargs else []);
          train_loader = DataLoader E (train_data E) train_kwargs;
          test_loader = DataLoader E (test_data E) test_kwargs;
          path = checkpoint_path (fmt_1e E) ''srch_'' a;
          s0 = \<lparr>model = \<lparr>params = build_model E (arch a) None False, training = True\<rparr>,
                optimizer = \<lparr>param_groups = [\<lparr>pg_lr = lr a, pg_weight_decay = 0\<rparr>],
                             slots = initial_slots E\<rparr>,
                journal = [], files = saved_models E\<rparr>
      in case test_search N (model s0) test_loader of
           Inl e \<Rightarrow> Inl e
         | Inr r0 \<Rightarrow>
            (let s1 = s0\<lparr>model := model_after r0, journal := journal s0 @ [Report (report r0)]\<rparr>
             in case complexity N (params (model s1)) of
                  Inl e \<Rightarrow> Inl e
                | Inr ci \<Rightarrow>
                   (let s2 = s1\<lparr>journal := journal s1 @ [Complexity (fst ci) (snd ci)]\<rparr>
                    in if eval_complexity a then Inr s2
                       else (case search_epochs a N train_loader test_loader [1..epochs a] s2 of
                               Inl e \<Rightarrow> Inl e
                             | Inr s3 \<Rightarrow>
                                (case complexity N (params (model s3)) of
                                   Inl e \<Rightarrow> Inl e
                                 | Inr cf \<Rightarrow>
                                    Inr (s3\<lparr>journal := journal s3 @ [Complexity (fst cf) (snd cf), Saved path],
                                            files := (files s3)(path \<mapsto> params (model s3))\<rparr>))))))"

section \<open>Invariants of the fine-tune loop\<close>

text \<open>The accuracy percentage an evaluation of parameters \<open>p\<close> on a loader computes.\<close>

definition accuracy_of :: "('p, 'o, 'x) network \<Rightarrow> 'p \<Rightarrow> 'x loader \<Rightarrow> real" where
  "accuracy_of N p l =
     100 * real (correct_count N p (concat (batches l))) / real (length (dataset l))"

text \<open>The training loader that \<^verbatim>\<open>main\<close> of fine-tune.py builds when CUDA is in use.\<close>

definition ft_train_loader :: "args \<Rightarrow> ('p, 'o, 'x) env \<Rightarrow> 'x loader" where
  "ft_train_loader a E =
     DataLoader E (train_data E)
       [(''batch_size'', KInt (batch_size a)), (''num_workers'', KInt 4),
        (''pin_memory'', KBool True), (''shuffle'', KBool True)]"

text \<open>The validation loader that \<^verbatim>\<open>main\<close> of fine-tune.py builds when CUDA is in use.\<close>

definition ft_val_loader :: "args \<Rightarrow> ('p, 'o, 'x) env \<Rightarrow> 'x loader" where
  "ft_val_loader a E =
     DataLoader E (val_data E)
       [(''batch_size'', KInt (test_batch_size a)), (''num_workers'', KInt 4),
        (''pin_memory'', KBool True), (''shuffle'', KBool True)]"

text \<open>The test loader that \<^verbatim>\<open>main\<close> of fine-tune.py builds when CUDA is in use.\<close>

definition ft_test_loader :: "args \<Rightarrow> ('p, 'o, 'x) env \<Rightarrow> 'x loader" where
  "ft_test_loader a E =
     DataLoader E (test_data E)
       [(''batch_size'', KInt (test_batch_size a)), (''num_workers'', KInt 4),
        (''pin_memory'', KBool True), (''shuffle'', KBool True)]"

text \<open>
  The state in which \<^verbatim>\<open>main\<close> of fine-tune.py enters its loop, and the state it is in
  after \<open>n\<close> turns of the loop (CUDA in use).
\<close>

definition ft_start :: "args \<Rightarrow> ('p, 'o, 'x) env \<Rightarrow> ('p, 'o) run \<times> selector" where
  "ft_start a E =
     (\<lparr>model = \<lparr>params = build_model E (arch a) (found_model a) True, training = True\<rparr>,
       optimizer = \<lparr>param_groups = [\<lparr>pg_lr = lr a, pg_weight_decay = 1 / 10000\<rparr>],
                    slots = initial_slots E\<rparr>,
       journal = [], files = saved_models E\<rparr>,
      \<lparr>val_acc = [0 \<mapsto> 0], test_acc = Map.empty, best_epoch = 0\<rparr>)"

definition ft_after :: "args \<Rightarrow> ('p, 'o, 'x) env \<Rightarrow> ('p, 'o, 'x) network \<Rightarrow> int
    \<Rightarrow> error + ('p, 'o) run \<times> selector" where
  "ft_after a E N n =
     ft_epochs a N (ft_train_loader a E) (ft_val_loader a E) (ft_test_loader a E)
       (checkpoint_path (fmt_1e E) ''ft_'' a) [1..n] (ft_start a E)"

text \<open>
  The two loaders \<^verbatim>\<open>main\<close> of search.py builds, and the state it is in after the first
  evaluation, the reading of the initial complexity and \<open>n\<close> turns of its loop.
\<close>

definition search_train_loader :: "args \<Rightarrow> ('p, 'o, 'x) env \<Rightarrow> 'x loader" where
  "search_train_loader a E =
     DataLoader E (train_data E)
       ([(''batch_size'', KInt (batch_size a))]
        @ (if \<not> no_cuda a \<and> cuda_available E
           then [(''num_workers'', KInt 1), (''pin_memory'', KBool True), (''shuffle'', KBool True)]
           else []))"

definition search_test_loader :: "args \<Rightarrow> ('p, 'o, 'x) env \<Rightarrow> 'x loader" where
  "search_test_loader a E =
     DataLoader E (test_data E)
       ([(''batch_size'', KInt (test_batch_size a))]
        @ (if \<not> no_cuda a \<and> cuda_available E
           then [(''num_workers'', KInt 1), (''pin_memory'', KBool True), (''shuffle'', KBool True)]
           else []))"

definition search_after :: "args \<Rightarrow> ('p, 'o, 'x) env \<Rightarrow> ('p, 'o, 'x) network \<Rightarrow> int
    \<Rightarrow> error + ('p, 'o) run" where
  "search_after a E N n =
     (let s0 = \<lparr>model = \<lparr>params = build_model E (arch a) None False, training = True\<rparr>,
                optimizer = \<lparr>param_groups = [\<lparr>pg_lr = lr a, pg_weight_decay = 0\<rparr>],
                             slots = initial_slots E\<rparr>,
                journal = [], files = saved_models E\<rparr>
      in case test_search N (model s0) (search_test_loader a E) of
           Inl e \<Rightarrow> Inl e
         | Inr r0 \<Rightarrow>
            (let s1 = s0\<lparr>model := model_after r0, journal := journal s0 @ [Report (report r0)]\<rparr>
             in case complexity N (params (model s1)) of
                  Inl e \<Rightarrow> Inl e
                | Inr ci \<Rightarrow>
                    search_epochs a N (search_train_loader a E) (search_test_loader a E) [1..n]
                      (s1\<lparr>journal := journal s1 @ [Complexity (fst ci) (snd ci)]\<rparr>)))"

text \<open>
  After \<open>n\<close> epochs: the baseline entry is still there, the best epoch is the last one
  among \<open>1..n\<close> whose validation accuracy is maximal, every epoch has its two entries,
  and the checkpoint file holds parameters whose validation accuracy is that maximum.
\<close>

definition selected :: "('p, 'o, 'x) network \<Rightarrow> 'x loader \<Rightarrow> string \<Rightarrow> int
    \<Rightarrow> ('p, 'o) run \<times> selector \<Rightarrow> bool" where
  "selected N vl path n sk =
     (val_acc (snd sk) 0 = Some 0 \<and> 0 \<le> best_epoch (snd sk) \<and> best_epoch (snd sk) \<le> n
      \<and> (1 \<le> n \<longrightarrow> 1 \<le> best_epoch (snd sk))
      \<and> (\<exists>vb. val_acc (snd sk) (best_epoch (snd sk)) = Some vb \<and> 0 \<le> vb
            \<and> (\<forall>e. 1 \<le> e \<and> e \<le> n \<longrightarrow>
                   (\<exists>v. val_acc (snd sk) e = Some v \<and> 0 \<le> v \<and> v \<le> vb
                        \<and> (best_epoch (snd sk) < e \<longrightarrow> v < vb))
                   \<and> test_acc (snd sk) e \<noteq> None)
            \<and> (1 \<le> n \<longrightarrow> (\<exists>p. files (fst sk) path = Some p \<and> accuracy_of N p vl = vb))))"

text \<open>
  After \<open>n\<close> epochs the optimizer holds the initial rate (no epoch done) or the rate
  scheduled for epoch \<open>n\<close>, and every optimizer step so far ran under the rate in force
  during its epoch.
\<close>

definition rated :: "args \<Rightarrow> int \<Rightarrow> ('p, 'o) run \<Rightarrow> bool" where
  "rated a n s =
     (rates (optimizer s) = [if n < 1 then lr a else schedule_lr n]
      \<and> (\<forall>e rs. Step e rs \<in> set (journal s) \<longrightarrow>
             1 \<le> e \<and> e \<le> n \<and> rs = [if e \<le> 1 then lr a else schedule_lr (e - 1)]))"

section \<open>A small network and dataset\<close>

text \<open>
  A network over numbered inputs whose parameters count the optimizer steps taken; it
  predicts class 1 after exactly one step and class 0 otherwise, and its loss is the
  0-1 loss. It serves to run the definitions on concrete data.
\<close>

definition demo_net :: "(nat, unit, nat) network" where
  "demo_net = \<lparr>forward = (\<lambda>tr p x. if p = 1 then [0, 1] else [1, 0]),
               sample_loss = (\<lambda>row y. if argmax row = Some y then 0 else 1),
               size_dict = (\<lambda>p. [(''conv1'', 8)]),
               ops_dict = (\<lambda>p. [(''conv1'', 16)]),
               update = (\<lambda>a gs sl p b. (sl, Suc p))\<rparr>"

definition demo_data :: "nat sample list" where
  "demo_data = [(1, 1), (2, 1), (3, 0), (4, 1)]"

definition demo_loader :: "nat loader" where
  "demo_loader = \<lparr>dataset = demo_data, batches = [[(1, 1), (2, 1)], [(3, 0), (4, 1)]]\<rparr>"


text \<open>
  Arguments of a two-epoch dry run with the other options at their defaults, and
  surroundings with CUDA available, the three splits equal to the small dataset, which
  fits into one batch, and a fresh model without steps.
\<close>

definition demo_args :: args where
  "demo_args = \<lparr>arch = ''plain_dscnn'', batch_size = 128, test_batch_size = 1000, epochs = 2,
                 lr = 1 / 100, cd_size = 0, cd_ops = 0, size_target = 0, gamma = 7 / 10,
                 no_cuda = False, eval_complexity = False, dry_run = True, seed = 1,
                 log_interval = 100, found_model = None\<rparr>"

definition demo_env :: "(nat, unit, nat) env" where
  "demo_env = \<lparr>cuda_available = True, train_data = demo_data, val_data = demo_data,
                test_data = demo_data, batching = (\<lambda>ds kw. [ds]),
                build_model = (\<lambda>name found ft. 0), initial_slots = (),
                saved_models = Map.empty, fmt_1e = (\<lambda>r. ''0.0e+00'')\<rparr>"

section \<open>Properties\<close>

lemma foldl_add_sum_list: "foldl (+) (s::real) vs = s + sum_list vs"
  by (induction vs arbitrary: s) simp_all

lemma val_of_py_sum: "val_of (py_sum vs) = sum_list vs"
  by (simp add: py_sum_def foldl_add_sum_list)

lemma sum_list_nonneg_real: "(\<And>v. v \<in> set vs \<Longrightarrow> 0 \<le> (v::real)) \<Longrightarrow> 0 \<le> sum_list vs"
  by (induction vs) simp_all

lemma search_loss_value:
  assumes "sd \<noteq> []" and "od \<noteq> []"
  shows "search_loss a nll sd od =
     Inr \<lparr>loss = nll + cd_size a * \<bar>aggregate sd - size_target a\<bar> + cd_ops a * aggregate od,
          loss_size = cd_size a * \<bar>aggregate sd - size_target a\<bar>,
          loss_ops = Tensor (cd_ops a * aggregate od)\<rparr>"
  using assms
  by (simp add: search_loss_def py_sum_def aggregate_def foldl_add_sum_list Let_def mult.commute)

lemma aggregate_nonneg:
  assumes "\<forall>v \<in> snd ` set d. 0 \<le> v"
  shows "0 \<le> aggregate d"
  unfolding aggregate_def using assms by (intro sum_list_nonneg_real) auto

text \<open>
  Claim C7. The schedule written into the optimizer depends on the epoch index only:
  every parameter group gets \<open>1e-2\<close> for epochs below 50, \<open>5e-3\<close> for epochs in
  \<open>[50, 100)\<close>, \<open>2.5e-3\<close> for epochs in \<open>[100, 150)\<close> and \<open>1e-3\<close> afterwards, whatever
  the rates were before; at the boundaries the values are \<open>rate 1 = 1e-2\<close>,
  \<open>rate 50 = 5e-3\<close>, \<open>rate 100 = 2.5e-3\<close> and \<open>rate 150 = 1e-3\<close>.
\<close>

theorem adjust_learning_rate_schedule:
  "(epoch < 50 \<longrightarrow> rates (adjust_learning_rate opt epoch) = replicate (length (param_groups opt)) (1 / 100))
   \<and> (50 \<le> epoch \<and> epoch < 100 \<longrightarrow>
        rates (adjust_learning_rate opt epoch) = replicate (length (param_groups opt)) (5 / 1000))
   \<and> (100 \<le> epoch \<and> epoch < 150 \<longrightarrow>
        rates (adjust_learning_rate opt epoch) = replicate (length (param_groups opt)) (25 / 10000))
   \<and> (150 \<le> epoch \<longrightarrow>
        rates (adjust_learning_rate opt epoch) = replicate (length (param_groups opt)) (1 / 1000))
   \<and> rates (adjust_learning_rate opt 1) = replicate (length (param_groups opt)) (1 / 100)
   \<and> rates (adjust_learning_rate opt 50) = replicate (length (param_groups opt)) (5 / 1000)
   \<and> rates (adjust_learning_rate opt 100) = replicate (length (param_groups opt)) (25 / 10000)
   \<and> rates (adjust_learning_rate opt 150) = replicate (length (param_groups opt)) (1 / 1000)
   \<and> slots (adjust_learning_rate opt epoch) = slots opt
   \<and> map pg_weight_decay (param_groups (adjust_learning_rate opt epoch))
       = map pg_weight_decay (param_groups opt)"
  by (simp add: adjust_learning_rate_def schedule_lr_def rates_def o_def map_replicate_const)

theorem adjust_learning_rate_schedule_witness:
  "rates (adjust_learning_rate \<lparr>param_groups = [\<lparr>pg_lr = 3 / 10, pg_weight_decay = 1 / 10000\<rparr>], slots = ()\<rparr> 49) = [1 / 100]
   \<and> rates (adjust_learning_rate \<lparr>param_groups = [\<lparr>pg_lr = 3 / 10, pg_weight_decay = 1 / 10000\<rparr>], slots = ()\<rparr> 99) = [5 / 1000]
   \<and> rates (adjust_learning_rate \<lparr>param_groups = [\<lparr>pg_lr = 3 / 10, pg_weight_decay = 1 / 10000\<rparr>], slots = ()\<rparr> 149) = [25 / 10000]
   \<and> rates (adjust_learning_rate \<lparr>param_groups = [\<lparr>pg_lr = 3 / 10, pg_weight_decay = 1 / 10000\<rparr>], slots = ()\<rparr> 200) = [1 / 1000]"
  using adjust_learning_rate_schedule
          [of 49 "\<lparr>param_groups = [\<lparr>pg_lr = 3 / 10, pg_weight_decay = 1 / 10000\<rparr>], slots = ()\<rparr>"]
        adjust_learning_rate_schedule
          [of 99 "\<lparr>param_groups = [\<lparr>pg_lr = 3 / 10, pg_weight_decay = 1 / 10000\<rparr>], slots = ()\<rparr>"]
        adjust_learning_rate_schedule
          [of 149 "\<lparr>param_groups = [\<lparr>pg_lr = 3 / 10, pg_weight_decay = 1 / 10000\<rparr>], slots = ()\<rparr>"]
        adjust_learning_rate_schedule
          [of 200 "\<lparr>param_groups = [\<lparr>pg_lr = 3 / 10, pg_weight_decay = 1 / 10000\<rparr>], slots = ()\<rparr>"]
  by simp

lemma test_batches_eq:
  "test_batches N p bs (t, c) = (t + loss_total N p (concat bs), c + correct_count N p (concat bs))"
  by (induction bs arbitrary: t c)
     (simp_all add: loss_total_def correct_count_def batch_loss_sum_def batch_correct_def)

lemma loss_total_mset: "mset xs = mset ys \<Longrightarrow> loss_total N p xs = loss_total N p ys"
proof -
  assume h: "mset xs = mset ys"
  let ?f = "\<lambda>(x, y). sample_loss N (forward N False p x) y"
  have "sum_list (map ?f xs) = sum_mset (image_mset ?f (mset xs))"
    by (metis mset_map sum_mset_sum_list)
  also have "\<dots> = sum_mset (image_mset ?f (mset ys))" using h by simp
  also have "\<dots> = sum_list (map ?f ys)"
    by (metis mset_map sum_mset_sum_list)
  finally show ?thesis by (simp add: loss_total_def)
qed

lemma correct_count_mset: "mset xs = mset ys \<Longrightarrow> correct_count N p xs = correct_count N p ys"
proof -
  assume h: "mset xs = mset ys"
  let ?P = "\<lambda>(x, y). argmax (forward N False p x) = Some y"
  have "length (filter ?P xs) = size (filter_mset ?P (mset xs))"
    by (metis mset_filter size_mset)
  also have "\<dots> = size (filter_mset ?P (mset ys))" using h by simp
  also have "\<dots> = length (filter ?P ys)"
    by (metis mset_filter size_mset)
  finally show ?thesis by (simp add: correct_count_def)
qed

lemma test_ft_result:
  assumes "dataset l \<noteq> []"
  shows "test_ft N m l sc =
     Inr \<lparr>model_after = m\<lparr>training := False\<rparr>,
          report = \<lparr>scope = sc,
                    average_loss = loss_total N (params m) (concat (batches l)) / real (length (dataset l)),
                    n_correct = correct_count N (params m) (concat (batches l)),
                    n_total = length (dataset l),
                    accuracy = 100 * real (correct_count N (params m) (concat (batches l))) / real (length (dataset l))\<rparr>,
          returned = Some (100 * real (correct_count N (params m) (concat (batches l))) / real (length (dataset l)))\<rparr>"
  using assms by (simp add: test_ft_def test_batches_eq Let_def)

lemma test_search_result:
  assumes "dataset l \<noteq> []"
  shows "test_search N m l =
     Inr \<lparr>model_after = m\<lparr>training := False\<rparr>,
          report = \<lparr>scope = ''Test'',
                    average_loss = loss_total N (params m) (concat (batches l)) / real (length (dataset l)),
                    n_correct = correct_count N (params m) (concat (batches l)),
                    n_total = length (dataset l),
                    accuracy = 100 * real (correct_count N (params m) (concat (batches l))) / real (length (dataset l))\<rparr>,
          returned = None\<rparr>"
  using assms by (simp add: test_search_def test_batches_eq Let_def)


lemma demo_loader_enumerates: "enumerates demo_loader"
  by (simp add: enumerates_def demo_loader_def demo_data_def)


lemma demo_correct_count_1: "correct_count demo_net (Suc 0) demo_data = 3"
  by (simp add: correct_count_def demo_net_def demo_data_def argmax_def)

lemma demo_loss_total_1: "loss_total demo_net (Suc 0) demo_data = 1"
  by (simp add: loss_total_def demo_net_def demo_data_def argmax_def)

text \<open>
  Claim C8, as stated, fails for the search driver: its \<^verbatim>\<open>test\<close> has no
  \<^verbatim>\<open>return\<close> statement, so on the small loader, where three of four samples are
  classified correctly, it reports the accuracy \<open>75\<close> and returns \<^verbatim>\<open>None\<close>.
\<close>

theorem test_search_returns_no_accuracy:
  "test_search demo_net \<lparr>params = 1, training = True\<rparr> demo_loader
     = Inr \<lparr>model_after = \<lparr>params = 1, training = False\<rparr>,
            report = \<lparr>scope = ''Test'', average_loss = 1 / 4, n_correct = 3, n_total = 4,
                      accuracy = 75\<rparr>,
            returned = None\<rparr>"
  by (simp add: test_search_def demo_net_def demo_loader_def demo_data_def Let_def
        batch_loss_sum_def batch_correct_def argmax_def)

text \<open>
  Claim C8, amended. For every model and every loader that enumerates a non-empty dataset
  of \<open>N\<close> samples, both evaluation functions report the accuracy percentage
  \<open>100 * correct / N\<close>, where \<open>correct\<close> counts the samples whose argmax prediction is
  the label, and the mean loss, the sum of the per-sample losses divided by \<open>N\<close>. The
  fine-tune driver's function returns that accuracy; the search driver's function
  returns nothing.
\<close>

theorem test_accuracy_and_mean_loss:
  assumes "enumerates l" and "dataset l \<noteq> []"
  shows "(\<exists>r. test_ft N m l sc = Inr r
            \<and> returned r = Some (100 * real (correct_count N (params m) (dataset l)) / real (length (dataset l)))
            \<and> accuracy (report r) = 100 * real (correct_count N (params m) (dataset l)) / real (length (dataset l))
            \<and> average_loss (report r) = loss_total N (params m) (dataset l) / real (length (dataset l)))
       \<and> (\<exists>r. test_search N m l = Inr r
            \<and> returned r = None
            \<and> accuracy (report r) = 100 * real (correct_count N (params m) (dataset l)) / real (length (dataset l))
            \<and> average_loss (report r) = loss_total N (params m) (dataset l) / real (length (dataset l)))"
proof -
  have ms: "mset (concat (batches l)) = mset (dataset l)"
    using assms(1) by (simp add: enumerates_def)
  have c: "correct_count N (params m) (concat (batches l)) = correct_count N (params m) (dataset l)"
    by (rule correct_count_mset [OF ms])
  have t: "loss_total N (params m) (concat (batches l)) = loss_total N (params m) (dataset l)"
    by (rule loss_total_mset [OF ms])
  show ?thesis
    by (simp add: test_ft_result [OF assms(2)] test_search_result [OF assms(2)] c t)
qed

theorem test_accuracy_and_mean_loss_witness:
  "(\<exists>r. test_ft demo_net \<lparr>params = 1, training = True\<rparr> demo_loader ''Validation'' = Inr r
        \<and> returned r = Some 75 \<and> accuracy (report r) = 75
        \<and> average_loss (report r) = 1 / 4)
   \<and> (\<exists>r. test_search demo_net \<lparr>params = 1, training = True\<rparr> demo_loader = Inr r
        \<and> returned r = None \<and> accuracy (report r) = 75
        \<and> average_loss (report r) = 1 / 4)"
proof -
  have ne: "dataset demo_loader \<noteq> []" by (simp add: demo_loader_def demo_data_def)
  have d: "dataset demo_loader = demo_data" by (simp add: demo_loader_def)
  have n: "length demo_data = 4" by (simp add: demo_data_def)
  from test_accuracy_and_mean_loss [OF demo_loader_enumerates ne,
         of demo_net "\<lparr>params = 1, training = True\<rparr>" "''Validation''"]
  show ?thesis by (simp add: d n demo_correct_count_1 demo_loss_total_1)
qed

text \<open>
  Claim C9. On a non-empty dataset the evaluation leaves the parameters of the model as
  they were, and a second evaluation of the model it leaves, on the same loader, gives
  the same report, the same returned value and the same model; this holds for both
  drivers.
\<close>

theorem test_idempotent:
  assumes "dataset l \<noteq> []"
  shows "(\<exists>r. test_ft N m l sc = Inr r
            \<and> params (model_after r) = params m
            \<and> test_ft N (model_after r) l sc = Inr r)
       \<and> (\<exists>r. test_search N m l = Inr r
            \<and> params (model_after r) = params m
            \<and> test_search N (model_after r) l = Inr r)"
  by (simp add: test_ft_result [OF assms] test_search_result [OF assms])

theorem test_idempotent_witness:
  "(\<exists>r. test_ft demo_net \<lparr>params = 1, training = True\<rparr> demo_loader ''Validation'' = Inr r
        \<and> params (model_after r) = 1
        \<and> test_ft demo_net (model_after r) demo_loader ''Validation'' = Inr r)
   \<and> (\<exists>r. test_search demo_net \<lparr>params = 1, training = True\<rparr> demo_loader = Inr r
        \<and> params (model_after r) = 1
        \<and> test_search demo_net (model_after r) demo_loader = Inr r)"
proof -
  have ne: "dataset demo_loader \<noteq> []" by (simp add: demo_loader_def demo_data_def)
  from test_idempotent [OF ne, of demo_net "\<lparr>params = 1, training = True\<rparr>" "''Validation''"]
  show ?thesis by simp
qed



text \<open>
  Claim C2. The fine-tune driver does not fall back: whenever CUDA is disabled or absent,
  \<^verbatim>\<open>cuda_kwargs\<close> is never assigned and the first \<^verbatim>\<open>DataLoader(..., **cuda_kwargs)\<close>
  raises \<^verbatim>\<open>UnboundLocalError\<close>, before any loader exists and before training.
\<close>

theorem ft_main_fails_without_cuda:
  assumes "no_cuda a \<or> \<not> cuda_available E"
  shows "ft_main a E N = Inl UnboundLocalError"
  using assms by (auto simp: ft_main_def Let_def)

theorem ft_main_fails_without_cuda_witness:
  "ft_main (demo_args\<lparr>no_cuda := True\<rparr>) demo_env demo_net = Inl UnboundLocalError"
  using ft_main_fails_without_cuda [of "demo_args\<lparr>no_cuda := True\<rparr>" demo_env demo_net]
  by (simp add: demo_args_def)

text \<open>
  Claim C6. With the dry-run flag, a positive log interval and a loader of at least one
  batch, one call of the training loop takes exactly one optimizer step, on the first
  batch, and prints exactly one progress line, whatever the number of batches. This holds
  for the fine-tune loop, and for the search loop on a model whose two complexity
  dictionaries are not empty.
\<close>

theorem dry_run_one_batch:
  assumes "dry_run a" and "0 < log_interval a" and "batches l \<noteq> []"
  shows "(\<exists>s' pl. train_ft a N s l epoch = Inr s'
            \<and> journal s' = journal s @ [Step epoch (rates (optimizer s)), Progress pl]
            \<and> p_epoch pl = epoch
            \<and> params (model s') = snd (update N a (param_groups (optimizer s)) (slots (optimizer s))
                                         (params (model s)) (hd (batches l))))
       \<and> (size_dict N (params (model s)) \<noteq> [] \<and> ops_dict N (params (model s)) \<noteq> [] \<longrightarrow>
           (\<exists>s' pl. train_search a N s l epoch = Inr s'
            \<and> journal s' = journal s @ [Step epoch (rates (optimizer s)), Progress pl]
            \<and> p_epoch pl = epoch
            \<and> params (model s') = snd (update N a (param_groups (optimizer s)) (slots (optimizer s))
                                         (params (model s)) (hd (batches l)))))"
proof -
  obtain b bs where bl: "batches l = b # bs"
    using assms(3) by (cases "batches l") auto
  have li: "log_interval a \<noteq> 0" using assms(2) by simp
  have ft: "\<exists>s' pl. train_ft a N s l epoch = Inr s'
            \<and> journal s' = journal s @ [Step epoch (rates (optimizer s)), Progress pl]
            \<and> p_epoch pl = epoch
            \<and> params (model s') = snd (update N a (param_groups (optimizer s)) (slots (optimizer s))
                                         (params (model s)) (hd (batches l)))"
    using assms(1) li by (simp add: train_ft_def bl Let_def)
  have sr: "\<exists>s' pl. train_search a N s l epoch = Inr s'
            \<and> journal s' = journal s @ [Step epoch (rates (optimizer s)), Progress pl]
            \<and> p_epoch pl = epoch
            \<and> params (model s') = snd (update N a (param_groups (optimizer s)) (slots (optimizer s))
                                         (params (model s)) (hd (batches l)))"
    if ne: "size_dict N (params (model s)) \<noteq> []" "ops_dict N (params (model s)) \<noteq> []"
  proof -
    have sz: "py_sum (map snd (size_dict N (params (model s)))) = Tensor (foldl (+) 0 (map snd (size_dict N (params (model s)))))"
      using ne(1) by (simp add: py_sum_def)
    have op: "py_sum (map snd (ops_dict N (params (model s)))) = Tensor (foldl (+) 0 (map snd (ops_dict N (params (model s)))))"
      using ne(2) by (simp add: py_sum_def)
    show ?thesis
      using assms(1) li by (simp add: train_search_def bl Let_def search_loss_def sz op)
  qed
  show ?thesis using ft sr by blast
qed

theorem dry_run_one_batch_witness:
  "(\<exists>s' pl. train_ft demo_args demo_net
                \<lparr>model = \<lparr>params = 0, training = False\<rparr>,
                 optimizer = \<lparr>param_groups = [\<lparr>pg_lr = 1 / 100, pg_weight_decay = 0\<rparr>], slots = ()\<rparr>,
                 journal = [], files = Map.empty\<rparr> demo_loader 1 = Inr s'
        \<and> journal s' = [Step 1 [1 / 100], Progress pl] \<and> p_epoch pl = 1 \<and> params (model s') = 1)
   \<and> (\<exists>s' pl. train_search demo_args demo_net
                \<lparr>model = \<lparr>params = 0, training = False\<rparr>,
                 optimizer = \<lparr>param_groups = [\<lparr>pg_lr = 1 / 100, pg_weight_decay = 0\<rparr>], slots = ()\<rparr>,
                 journal = [], files = Map.empty\<rparr> demo_loader 1 = Inr s'
        \<and> journal s' = [Step 1 [1 / 100], Progress pl] \<and> p_epoch pl = 1 \<and> params (model s') = 1)"
proof -
  have d: "dry_run demo_args" and li: "0 < log_interval demo_args"
    by (simp_all add: demo_args_def)
  have ne: "batches demo_loader \<noteq> []" by (simp add: demo_loader_def)
  from dry_run_one_batch [OF d li ne, of demo_net
         "\<lparr>model = \<lparr>params = 0, training = False\<rparr>,
           optimizer = \<lparr>param_groups = [\<lparr>pg_lr = 1 / 100, pg_weight_decay = 0\<rparr>], slots = ()\<rparr>,
           journal = [], files = Map.empty\<rparr>" 1]
  show ?thesis by (simp add: demo_net_def rates_def)
qed

lemma train_ft_batches_result:
  assumes "log_interval a \<noteq> 0"
  shows "\<exists>s' evs. train_ft_batches a N ns nb e i bs s = Inr s'
     \<and> param_groups (optimizer s') = param_groups (optimizer s)
     \<and> files s' = files s
     \<and> journal s' = journal s @ evs
     \<and> (\<forall>ev\<in>set evs. ev = Step e (rates (optimizer s)) \<or> (\<exists>pl. ev = Progress pl))"
proof (induction bs arbitrary: i s)
  case Nil
  show ?case by simp
next
  case (Cons b bs)
  let ?u = "update N a (param_groups (optimizer s)) (slots (optimizer s)) (params (model s)) b"
  let ?s1 = "s\<lparr>model := (model s)\<lparr>params := snd ?u\<rparr>,
                optimizer := (optimizer s)\<lparr>slots := fst ?u\<rparr>,
                journal := journal s @ [Step e (rates (optimizer s))]\<rparr>"
  let ?pl = "\<lparr>p_epoch = e, p_seen = i * int (length b), p_total = ns,
              p_percent = 100 * real_of_int i / real nb,
              p_loss = batch_loss_mean N (params (model s)) b, p_size_loss = None, p_ops_loss = None\<rparr>"
  let ?s2 = "?s1\<lparr>journal := journal ?s1 @ [Progress ?pl]\<rparr>"
  have r1: "rates (optimizer ?s1) = rates (optimizer s)" by (simp add: rates_def)
  have r2: "rates (optimizer ?s2) = rates (optimizer s)" by (simp add: rates_def)
  show ?case
  proof (cases "i mod log_interval a = 0")
    case True
    show ?thesis
    proof (cases "dry_run a")
      case True
      have "train_ft_batches a N ns nb e i (b # bs) s = Inr ?s2"
        using assms \<open>i mod log_interval a = 0\<close> True by (simp add: Let_def)
      then show ?thesis by simp
    next
      case False
      have eq: "train_ft_batches a N ns nb e i (b # bs) s = train_ft_batches a N ns nb e (i + 1) bs ?s2"
        using assms \<open>i mod log_interval a = 0\<close> False by (simp add: Let_def)
      from Cons.IH [of "i + 1" ?s2] obtain s' evs where
        h: "train_ft_batches a N ns nb e (i + 1) bs ?s2 = Inr s'"
           "param_groups (optimizer s') = param_groups (optimizer ?s2)"
           "files s' = files ?s2" "journal s' = journal ?s2 @ evs"
           "\<forall>ev\<in>set evs. ev = Step e (rates (optimizer ?s2)) \<or> (\<exists>pl. ev = Progress pl)"
        by blast
      have j: "journal s' = journal s @ (Step e (rates (optimizer s)) # Progress ?pl # evs)"
        using h(4) by simp
      have all: "\<forall>ev\<in>set (Step e (rates (optimizer s)) # Progress ?pl # evs).
                   ev = Step e (rates (optimizer s)) \<or> (\<exists>pl. ev = Progress pl)"
        using h(5) unfolding r2 by auto
      show ?thesis unfolding eq
      proof (intro exI conjI)
        show "train_ft_batches a N ns nb e (i + 1) bs ?s2 = Inr s'" by (rule h(1))
        show "param_groups (optimizer s') = param_groups (optimizer s)" using h(2) by simp
        show "files s' = files s" using h(3) by simp
        show "journal s' = journal s @ (Step e (rates (optimizer s)) # Progress ?pl # evs)" by (rule j)
        show "\<forall>ev\<in>set (Step e (rates (optimizer s)) # Progress ?pl # evs).
                   ev = Step e (rates (optimizer s)) \<or> (\<exists>pl. ev = Progress pl)" by (rule all)
      qed
    qed
  next
    case False
    have eq: "train_ft_batches a N ns nb e i (b # bs) s = train_ft_batches a N ns nb e (i + 1) bs ?s1"
      using assms False by (simp add: Let_def)
    from Cons.IH [of "i + 1" ?s1] obtain s' evs where
      h: "train_ft_batches a N ns nb e (i + 1) bs ?s1 = Inr s'"
         "param_groups (optimizer s') = param_groups (optimizer ?s1)"
         "files s' = files ?s1" "journal s' = journal ?s1 @ evs"
         "\<forall>ev\<in>set evs. ev = Step e (rates (optimizer ?s1)) \<or> (\<exists>pl. ev = Progress pl)"
      by blast
    have j: "journal s' = journal s @ (Step e (rates (optimizer s)) # evs)"
      using h(4) by simp
    have all: "\<forall>ev\<in>set (Step e (rates (optimizer s)) # evs).
                 ev = Step e (rates (optimizer s)) \<or> (\<exists>pl. ev = Progress pl)"
      using h(5) unfolding r1 by auto
    show ?thesis unfolding eq
    proof (intro exI conjI)
      show "train_ft_batches a N ns nb e (i + 1) bs ?s1 = Inr s'" by (rule h(1))
      show "param_groups (optimizer s') = param_groups (optimizer s)" using h(2) by simp
      show "files s' = files s" using h(3) by simp
      show "journal s' = journal s @ (Step e (rates (optimizer s)) # evs)" by (rule j)
      show "\<forall>ev\<in>set (Step e (rates (optimizer s)) # evs).
                 ev = Step e (rates (optimizer s)) \<or> (\<exists>pl. ev = Progress pl)" by (rule all)
    qed
  qed
qed

lemma train_ft_result:
  assumes "log_interval a \<noteq> 0"
  shows "\<exists>s' evs. train_ft a N s l e = Inr s'
     \<and> param_groups (optimizer s') = param_groups (optimizer s)
     \<and> files s' = files s
     \<and> journal s' = journal s @ evs
     \<and> (\<forall>ev\<in>set evs. ev = Step e (rates (optimizer s)) \<or> (\<exists>pl. ev = Progress pl))"
proof -
  let ?s0 = "s\<lparr>model := (model s)\<lparr>training := True\<rparr>\<rparr>"
  from train_ft_batches_result [OF assms, of N "length (dataset l)" "length (batches l)" e 0 "batches l" ?s0]
  show ?thesis by (simp add: train_ft_def rates_def)
qed


lemma test_ft_accuracy:
  assumes "dataset l \<noteq> []"
  shows "\<exists>r. test_ft N m l sc = Inr r \<and> model_after r = m\<lparr>training := False\<rparr>
            \<and> returned r = Some (accuracy_of N (params m) l)"
  using assms by (simp add: test_ft_def test_batches_eq Let_def accuracy_of_def)

lemma ft_epoch_cases:
  assumes li: "log_interval a \<noteq> 0" and vn: "dataset vl \<noteq> []" and tn: "dataset tel \<noteq> []"
      and run: "ft_epoch a N trl vl tel path e (s :: ('p, 'o) run, k) = Inr (s', k')"
  shows "\<exists>(s1 :: ('p, 'o) run) evs rv rt vb.
      param_groups (optimizer s1) = param_groups (optimizer s) \<and> files s1 = files s
    \<and> journal s1 = journal s @ evs
    \<and> (\<forall>ev\<in>set evs. ev = Step e (rates (optimizer s)) \<or> (\<exists>pl. ev = Progress pl))
    \<and> ((val_acc k)(e \<mapsto> accuracy_of N (params (model s1)) vl)) (best_epoch k) = Some vb
    \<and> val_acc k' = (val_acc k)(e \<mapsto> accuracy_of N (params (model s1)) vl)
    \<and> test_acc k' = (test_acc k)(e \<mapsto> accuracy_of N (params (model s1)) tel)
    \<and> params (model s') = params (model s1)
    \<and> optimizer s' = adjust_learning_rate (optimizer s1) e
    \<and> (if vb \<le> accuracy_of N (params (model s1)) vl
        then best_epoch k' = e \<and> files s' = (files s)(path \<mapsto> params (model s1))
             \<and> journal s' = journal s1 @ [Report rv, Report rt, Saved path]
        else best_epoch k' = best_epoch k \<and> files s' = files s
             \<and> journal s' = journal s1 @ [Report rv, Report rt])"
proof -
  from train_ft_result [OF li, of N s trl e] obtain s1 evs where
    t: "train_ft a N s trl e = Inr s1"
       "param_groups (optimizer s1) = param_groups (optimizer s)" "files s1 = files s"
       "journal s1 = journal s @ evs"
       "\<forall>ev\<in>set evs. ev = Step e (rates (optimizer s)) \<or> (\<exists>pl. ev = Progress pl)"
    by blast
  from test_ft_accuracy [OF vn, of N "model s1" "''Validation''"] obtain rv where
    rv: "test_ft N (model s1) vl ''Validation'' = Inr rv"
        "model_after rv = (model s1)\<lparr>training := False\<rparr>"
        "returned rv = Some (accuracy_of N (params (model s1)) vl)"
    by blast
  from test_ft_accuracy [OF tn, of N "model_after rv" "''Test''"] obtain rt where
    rt: "test_ft N (model_after rv) tel ''Test'' = Inr rt"
        "model_after rt = (model_after rv)\<lparr>training := False\<rparr>"
        "returned rt = Some (accuracy_of N (params (model_after rv)) tel)"
    by blast
  have prv: "params (model_after rv) = params (model s1)" by (simp add: rv(2))
  let ?v = "accuracy_of N (params (model s1)) vl"
  from run obtain vb where vb: "((val_acc k)(e \<mapsto> ?v)) (best_epoch k) = Some vb"
    by (cases "((val_acc k)(e \<mapsto> ?v)) (best_epoch k)")
       (simp_all add: ft_epoch_def t(1) rv(1,3) rt(1,3) Let_def)
  let ?k1 = "k\<lparr>val_acc := (val_acc k)(e \<mapsto> ?v),
                 test_acc := (test_acc k)(e \<mapsto> accuracy_of N (params (model s1)) tel)\<rparr>"
  let ?s2 = "s1\<lparr>model := model_after rt,
                 journal := journal s1 @ [Report (report rv), Report (report rt)],
                 optimizer := adjust_learning_rate (optimizer s1) e\<rparr>"
  have res: "(if vb \<le> ?v
              then Inr (?s2\<lparr>files := (files ?s2)(path \<mapsto> params (model ?s2)),
                             journal := journal ?s2 @ [Saved path]\<rparr>, ?k1\<lparr>best_epoch := e\<rparr>)
              else Inr (?s2, ?k1)) = (Inr (s', k') :: error + _)"
    using run vb by (simp add: ft_epoch_def t(1) rv(1,3) rt(1,3) Let_def prv)
  have prt: "params (model_after rt) = params (model s1)" by (simp add: rt(2) rv(2))
  show ?thesis
  proof (cases "vb \<le> ?v")
    case True
    with res have s': "s' = ?s2\<lparr>files := (files ?s2)(path \<mapsto> params (model ?s2)),
                                  journal := journal ?s2 @ [Saved path]\<rparr>"
      and k': "k' = ?k1\<lparr>best_epoch := e\<rparr>" by simp_all
    show ?thesis
      by (rule exI [where x = s1], rule exI [where x = evs], rule exI [where x = "report rv"],
          rule exI [where x = "report rt"], rule exI [where x = vb])
         (insert vb, simp add: s' k' True t(2,3,4) t(5) prt)
  next
    case False
    with res have s': "s' = ?s2" and k': "k' = ?k1" by simp_all
    show ?thesis
      by (rule exI [where x = s1], rule exI [where x = evs], rule exI [where x = "report rv"],
          rule exI [where x = "report rt"], rule exI [where x = vb])
         (insert vb, simp add: s' k' False t(2,3,4) t(5) prt)
  qed
qed

lemma ft_epoch_succeeds:
  assumes li: "log_interval a \<noteq> 0" and vn: "dataset vl \<noteq> []" and tn: "dataset tel \<noteq> []"
      and vb: "val_acc k (best_epoch k) = Some vb"
  shows "\<exists>sk'. ft_epoch a N trl vl tel path e (s, k) = Inr sk'"
proof -
  from train_ft_result [OF li, of N s trl e] obtain s1 where
    t: "train_ft a N s trl e = Inr s1" by blast
  from test_ft_accuracy [OF vn, of N "model s1" "''Validation''"] obtain rv where
    rv: "test_ft N (model s1) vl ''Validation'' = Inr rv"
        "returned rv = Some (accuracy_of N (params (model s1)) vl)"
    by blast
  from test_ft_accuracy [OF tn, of N "model_after rv" "''Test''"] obtain rt where
    rt: "test_ft N (model_after rv) tel ''Test'' = Inr rt"
        "returned rt = Some (accuracy_of N (params (model_after rv)) tel)"
    by blast
  show ?thesis using vb
    by (simp add: ft_epoch_def t rv rt Let_def)
qed


lemma accuracy_of_nonneg: "0 \<le> accuracy_of N p l"
  by (simp add: accuracy_of_def)

lemma selected_step:
  assumes li: "log_interval a \<noteq> 0" and vn: "dataset vl \<noteq> []" and tn: "dataset tel \<noteq> []"
      and e1: "1 \<le> e" and inv: "selected N vl path (e - 1) (s, k)"
  shows "\<exists>s' k'. ft_epoch a N trl vl tel path e (s :: ('p, 'o) run, k) = Inr (s', k')
           \<and> selected N vl path e (s', k')"
proof -
  from inv obtain vb where
    b0: "val_acc k 0 = Some 0" and b1: "0 \<le> best_epoch k" "best_epoch k \<le> e - 1"
    and b2: "1 \<le> e - 1 \<longrightarrow> 1 \<le> best_epoch k"
    and vb: "val_acc k (best_epoch k) = Some vb" "0 \<le> vb"
    and old: "\<forall>x. 1 \<le> x \<and> x \<le> e - 1 \<longrightarrow>
                (\<exists>v. val_acc k x = Some v \<and> 0 \<le> v \<and> v \<le> vb \<and> (best_epoch k < x \<longrightarrow> v < vb))
                \<and> test_acc k x \<noteq> None"
    and fl: "1 \<le> e - 1 \<longrightarrow> (\<exists>p. files s path = Some p \<and> accuracy_of N p vl = vb)"
    unfolding selected_def by auto
  have ne: "best_epoch k \<noteq> e" using b1 by simp
  from ft_epoch_succeeds [OF li vn tn vb(1), of N trl path e s]
  obtain s' k' where run: "ft_epoch a N trl vl tel path e (s, k) = Inr (s', k')"
    by (metis surj_pair)
  from ft_epoch_cases [OF li vn tn run] obtain s1 :: "('p, 'o) run" and evs rv rt vb' where
    c0: "param_groups (optimizer s1) = param_groups (optimizer s)" "files s1 = files s"
       "journal s1 = journal s @ evs"
       "\<forall>ev\<in>set evs. ev = Step e (rates (optimizer s)) \<or> (\<exists>pl. ev = Progress pl)"
    and c: "((val_acc k)(e \<mapsto> accuracy_of N (params (model s1)) vl)) (best_epoch k) = Some vb'"
       "val_acc k' = (val_acc k)(e \<mapsto> accuracy_of N (params (model s1)) vl)"
       "test_acc k' = (test_acc k)(e \<mapsto> accuracy_of N (params (model s1)) tel)"
    and c1: "params (model s') = params (model s1)"
       "optimizer s' = adjust_learning_rate (optimizer s1) e"
    and c4: "if vb' \<le> accuracy_of N (params (model s1)) vl
        then best_epoch k' = e \<and> files s' = (files s)(path \<mapsto> params (model s1))
             \<and> journal s' = journal s1 @ [Report rv, Report rt, Saved path]
        else best_epoch k' = best_epoch k \<and> files s' = files s
             \<and> journal s' = journal s1 @ [Report rv, Report rt]"
    by blast
  let ?v = "accuracy_of N (params (model s1)) vl"
  have vv: "vb' = vb" using c(1) ne vb(1) by simp
  have v0: "0 \<le> ?v" by (rule accuracy_of_nonneg)
  have first: "vb = 0" if "e = 1"
  proof -
    from that b1 have "best_epoch k = 0" by simp
    with vb(1) b0 show ?thesis by simp
  qed
  have sel: "selected N vl path e (s', k')"
  proof (cases "vb \<le> ?v")
    case True
    with c4 vv have be: "best_epoch k' = e" and f: "files s' = (files s)(path \<mapsto> params (model s1))"
      by simp_all
    have all: "(\<exists>v. val_acc k' x = Some v \<and> 0 \<le> v \<and> v \<le> ?v \<and> (best_epoch k' < x \<longrightarrow> v < ?v))
                \<and> test_acc k' x \<noteq> None" if x: "1 \<le> x" "x \<le> e" for x
    proof (cases "x = e")
      case True
      then show ?thesis using v0 be by (simp add: c(2,3))
    next
      case False
      with x have "1 \<le> x \<and> x \<le> e - 1" by simp
      with old obtain v where "val_acc k x = Some v" "0 \<le> v" "v \<le> vb" "test_acc k x \<noteq> None"
        by blast
      with False True x be show ?thesis by (simp add: c(2,3))
    qed
    show ?thesis
      unfolding selected_def
      using e1 be f v0 b0 all by (auto simp: c(2))
  next
    case False
    with c4 vv have be: "best_epoch k' = best_epoch k" and f: "files s' = files s"
      by simp_all
    have e2: "1 \<le> e - 1" using first False v0 e1 by (cases "e = 1") auto
    have all: "(\<exists>v. val_acc k' x = Some v \<and> 0 \<le> v \<and> v \<le> vb \<and> (best_epoch k' < x \<longrightarrow> v < vb))
                \<and> test_acc k' x \<noteq> None" if x: "1 \<le> x" "x \<le> e" for x
    proof (cases "x = e")
      case True
      then show ?thesis using v0 False by (simp add: c(2,3))
    next
      case False
      with x have "1 \<le> x \<and> x \<le> e - 1" by simp
      with old have "(\<exists>v. val_acc k x = Some v \<and> 0 \<le> v \<and> v \<le> vb \<and> (best_epoch k < x \<longrightarrow> v < vb))
                \<and> test_acc k x \<noteq> None" by blast
      with False show ?thesis by (simp add: c(2,3) be)
    qed
    have vbk: "val_acc k' (best_epoch k') = Some vb" using vb(1) ne by (simp add: be c(2))
    have k0: "val_acc k' 0 = Some 0" using b0 e1 by (simp add: c(2))
    show ?thesis
      unfolding selected_def
      using e1 e2 be f b1 b2 vb(2) vbk k0 all fl by auto
  qed
  show ?thesis using run sel by blast
qed


lemma rates_adjust:
  "rates (adjust_learning_rate opt e) = replicate (length (param_groups opt)) (schedule_lr e)"
  by (simp add: adjust_learning_rate_def rates_def o_def map_replicate_const)

lemma rated_step:
  assumes li: "log_interval a \<noteq> 0" and vn: "dataset vl \<noteq> []" and tn: "dataset tel \<noteq> []"
      and e1: "1 \<le> e" and inv: "rated a (e - 1) s"
      and run: "ft_epoch a N trl vl tel path e (s :: ('p, 'o) run, k) = Inr (s', k')"
  shows "rated a e s' \<and> (\<exists>evs. journal s' = journal s @ evs)"
proof -
  from ft_epoch_cases [OF li vn tn run] obtain s1 :: "('p, 'o) run" and evs rv rt vb' where
    c0: "param_groups (optimizer s1) = param_groups (optimizer s)"
       "journal s1 = journal s @ evs"
       "\<forall>ev\<in>set evs. ev = Step e (rates (optimizer s)) \<or> (\<exists>pl. ev = Progress pl)"
    and c1: "optimizer s' = adjust_learning_rate (optimizer s1) e"
    and c4: "if vb' \<le> accuracy_of N (params (model s1)) vl
        then best_epoch k' = e \<and> files s' = (files s)(path \<mapsto> params (model s1))
             \<and> journal s' = journal s1 @ [Report rv, Report rt, Saved path]
        else best_epoch k' = best_epoch k \<and> files s' = files s
             \<and> journal s' = journal s1 @ [Report rv, Report rt]"
    by blast
  from inv have r: "rates (optimizer s) = [if e - 1 < 1 then lr a else schedule_lr (e - 1)]"
    and st: "\<forall>x rs. Step x rs \<in> set (journal s) \<longrightarrow>
                 1 \<le> x \<and> x \<le> e - 1 \<and> rs = [if x \<le> 1 then lr a else schedule_lr (x - 1)]"
    unfolding rated_def by simp_all
  have "length (rates (optimizer s)) = 1" unfolding r by simp
  then have len: "length (param_groups (optimizer s)) = 1"
    by (simp add: rates_def)
  have r': "rates (optimizer s') = [if e < 1 then lr a else schedule_lr e]"
    using e1 len by (simp add: c1 rates_adjust c0(1))
  obtain tail where j: "journal s' = journal s @ evs @ tail"
    and tail: "\<forall>x rs. Step x rs \<notin> set tail"
    using c4 c0(2) by (cases "vb' \<le> accuracy_of N (params (model s1)) vl") auto
  have re: "rates (optimizer s) = [if e \<le> 1 then lr a else schedule_lr (e - 1)]"
    using r by (simp add: algebra_simps)
  have st': "1 \<le> x \<and> x \<le> e \<and> rs = [if x \<le> 1 then lr a else schedule_lr (x - 1)]"
    if "Step x rs \<in> set (journal s')" for x rs
  proof -
    from that j tail have "Step x rs \<in> set (journal s) \<or> Step x rs \<in> set evs" by auto
    then show ?thesis
    proof
      assume "Step x rs \<in> set (journal s)"
      with st show ?thesis by force
    next
      assume "Step x rs \<in> set evs"
      with c0(3) have "x = e \<and> rs = rates (optimizer s)" by auto
      with re e1 show ?thesis by simp
    qed
  qed
  show ?thesis unfolding rated_def using r' st' j by blast
qed

lemma ft_epochs_upto:
  assumes li: "log_interval a \<noteq> 0" and vn: "dataset vl \<noteq> []" and tn: "dataset tel \<noteq> []"
  shows "1 \<le> i \<Longrightarrow> selected N vl path (i - 1) (s, k) \<Longrightarrow> rated a (i - 1) s \<Longrightarrow>
     \<exists>s' k'. ft_epochs a N trl vl tel path [i..j] (s :: ('p, 'o) run, k) = Inr (s', k')
        \<and> selected N vl path (max (i - 1) j) (s', k') \<and> rated a (max (i - 1) j) s'
        \<and> (\<exists>evs. journal s' = journal s @ evs)"
proof (induction i j arbitrary: s k rule: upto.induct)
  case (1 i j)
  show ?case
  proof (cases "i \<le> j")
    case True
    from selected_step [OF li vn tn "1.prems"(1,2), of trl] obtain s1 k1 where
      run: "ft_epoch a N trl vl tel path i (s, k) = Inr (s1, k1)"
      and sel: "selected N vl path i (s1, k1)"
      by blast
    from rated_step [OF li vn tn "1.prems"(1,3) run] obtain evs1 where
      rat: "rated a i s1" and j1: "journal s1 = journal s @ evs1" by blast
    have i1: "1 \<le> i + 1" using "1.prems"(1) by simp
    from "1.IH" [OF True i1, of s1 k1] sel rat obtain s' k' evs2 where
      h: "ft_epochs a N trl vl tel path [i + 1..j] (s1, k1) = Inr (s', k')"
         "selected N vl path (max (i + 1 - 1) j) (s', k')" "rated a (max (i + 1 - 1) j) s'"
         "journal s' = journal s1 @ evs2"
      by auto
    have m: "max (i + 1 - 1) j = max (i - 1) j" using True by simp
    have eq: "ft_epochs a N trl vl tel path [i..j] (s, k) = Inr (s', k')"
      using True run h(1) by (simp add: upto_rec1)
    have "journal s' = journal s @ (evs1 @ evs2)" using h(4) j1 by simp
    then show ?thesis using eq h(2,3) unfolding m by blast
  next
    case False
    then have e: "[i..j] = []" and m: "max (i - 1) j = i - 1" by simp_all
    show ?thesis using "1.prems"(2,3) by (simp add: e m)
  qed
qed


lemma ft_main_run:
  assumes cu: "\<not> no_cuda a" "cuda_available E" and li: "log_interval a \<noteq> 0"
      and vn: "val_data E \<noteq> []" and tn: "test_data E \<noteq> []" and ep: "1 \<le> epochs a"
  shows "\<exists>(s :: ('p, 'o) run) k vb tb pre rv rt post.
      ft_main a E N = Inr (s, k)
    \<and> selected N (ft_val_loader a E) (checkpoint_path (fmt_1e E) ''ft_'' a) (epochs a) (s, k)
    \<and> rated a (epochs a) s
    \<and> val_acc k (best_epoch k) = Some vb \<and> test_acc k (best_epoch k) = Some tb
    \<and> journal s = pre @ [Report rv, Report rt, Saved (checkpoint_path (fmt_1e E) ''ft_'' a)] @ post
                     @ [Summary ''Best Val Acc'' vb (best_epoch k), Summary ''Test Acc'' tb (best_epoch k)]
    \<and> (\<forall>ev\<in>set pre. ev = Step 1 [lr a] \<or> (\<exists>pl. ev = Progress pl))"
proof -
  let ?ck = "[(''num_workers'', KInt 4), (''pin_memory'', KBool True), (''shuffle'', KBool True)]"
  let ?trl = "DataLoader E (train_data E) ((''batch_size'', KInt (batch_size a)) # ?ck)"
  let ?vl = "ft_val_loader a E"
  let ?tel = "DataLoader E (test_data E) ((''batch_size'', KInt (test_batch_size a)) # ?ck)"
  let ?path = "checkpoint_path (fmt_1e E) ''ft_'' a"
  let ?s0 = "\<lparr>model = \<lparr>params = build_model E (arch a) (found_model a) True, training = True\<rparr>,
              optimizer = \<lparr>param_groups = [\<lparr>pg_lr = lr a, pg_weight_decay = 1 / 10000\<rparr>],
                           slots = initial_slots E\<rparr>,
              journal = [], files = saved_models E\<rparr> :: ('p, 'o) run"
  let ?k0 = "\<lparr>val_acc = [0 \<mapsto> 0], test_acc = Map.empty, best_epoch = 0\<rparr>"
  have vn': "dataset ?vl \<noteq> []" using vn by (simp add: ft_val_loader_def DataLoader_def)
  have tn': "dataset ?tel \<noteq> []" using tn by (simp add: DataLoader_def)
  have main: "ft_main a E N =
      (case ft_epochs a N ?trl ?vl ?tel ?path [1..epochs a] (?s0, ?k0) of
         Inl e \<Rightarrow> Inl e
       | Inr sk \<Rightarrow>
          (case val_acc (snd sk) (best_epoch (snd sk)) of
             None \<Rightarrow> Inl KeyError
           | Some v \<Rightarrow>
              (case test_acc (snd sk) (best_epoch (snd sk)) of
                 None \<Rightarrow> Inl KeyError
               | Some t \<Rightarrow>
                   Inr ((fst sk)\<lparr>journal := journal (fst sk) @
                           [Summary ''Best Val Acc'' v (best_epoch (snd sk)),
                            Summary ''Test Acc'' t (best_epoch (snd sk))]\<rparr>,
                        snd sk))))"
    using cu by (simp add: ft_main_def ft_val_loader_def Let_def)
  have sel0: "selected N ?vl ?path (1 - 1) (?s0, ?k0)" by (simp add: selected_def)
  have rat0: "rated a (1 - 1) ?s0" by (simp add: rated_def rates_def)
  from selected_step [where trl = ?trl, OF li vn' tn' _ sel0] obtain s1 k1 where
    run1: "ft_epoch a N ?trl ?vl ?tel ?path 1 (?s0, ?k0) = Inr (s1, k1)"
    and sel1: "selected N ?vl ?path 1 (s1, k1)"
    by auto
  from rated_step [OF li vn' tn' _ rat0 run1] have rat1: "rated a 1 s1" by simp
  from ft_epoch_cases [OF li vn' tn' run1] obtain sa :: "('p, 'o) run" and evs rv rt vb' where
    c0: "journal sa = journal ?s0 @ evs"
       "\<forall>ev\<in>set evs. ev = Step 1 (rates (optimizer ?s0)) \<or> (\<exists>pl. ev = Progress pl)"
    and c: "((val_acc ?k0)(1 \<mapsto> accuracy_of N (params (model sa)) ?vl)) (best_epoch ?k0) = Some vb'"
    and c4: "if vb' \<le> accuracy_of N (params (model sa)) ?vl
        then best_epoch k1 = 1 \<and> files s1 = (files ?s0)(?path \<mapsto> params (model sa))
             \<and> journal s1 = journal sa @ [Report rv, Report rt, Saved ?path]
        else best_epoch k1 = best_epoch ?k0 \<and> files s1 = files ?s0
             \<and> journal s1 = journal sa @ [Report rv, Report rt]"
    by blast
  have "vb' = 0" using c by simp
  then have "vb' \<le> accuracy_of N (params (model sa)) ?vl" by (simp add: accuracy_of_nonneg)
  with c4 c0(1) have j1: "journal s1 = evs @ [Report rv, Report rt, Saved ?path]" by simp
  have pre: "\<forall>ev\<in>set evs. ev = Step 1 [lr a] \<or> (\<exists>pl. ev = Progress pl)"
    using c0(2) by (simp add: rates_def)
  have sel1': "selected N ?vl ?path (2 - 1) (s1, k1)" and rat1': "rated a (2 - 1) s1"
    using sel1 rat1 by simp_all
  from ft_epochs_upto [where trl = ?trl and j = "epochs a", OF li vn' tn' _ sel1' rat1'] obtain s2 k2 post where
    rest: "ft_epochs a N ?trl ?vl ?tel ?path [2..epochs a] (s1, k1) = Inr (s2, k2)"
    and sel2: "selected N ?vl ?path (max (2 - 1) (epochs a)) (s2, k2)"
    and rat2: "rated a (max (2 - 1) (epochs a)) s2"
    and j2: "journal s2 = journal s1 @ post"
    by auto
  have m: "max (2 - 1) (epochs a) = epochs a" using ep by simp
  have loop: "ft_epochs a N ?trl ?vl ?tel ?path [1..epochs a] (?s0, ?k0) = Inr (s2, k2)"
    using ep run1 rest by (simp add: upto_rec1 [of 1 "epochs a"])
  from sel2 [unfolded m] obtain vb where
    b: "1 \<le> best_epoch k2" "best_epoch k2 \<le> epochs a" "val_acc k2 (best_epoch k2) = Some vb"
    and tb0: "test_acc k2 (best_epoch k2) \<noteq> None"
    using ep unfolding selected_def by auto
  then obtain tb where tb: "test_acc k2 (best_epoch k2) = Some tb" by auto
  let ?sum = "[Summary ''Best Val Acc'' vb (best_epoch k2), Summary ''Test Acc'' tb (best_epoch k2)]"
  let ?s = "s2\<lparr>journal := journal s2 @ ?sum\<rparr>"
  have res: "ft_main a E N = Inr (?s, k2)"
    by (simp add: main loop b(3) tb)
  have sel: "selected N ?vl ?path (epochs a) (?s, k2)"
    using sel2 [unfolded m] by (simp add: selected_def)
  have rat: "rated a (epochs a) ?s"
    using rat2 [unfolded m] by (auto simp: rated_def rates_def)
  have j: "journal ?s = evs @ [Report rv, Report rt, Saved ?path] @ post @ ?sum"
    using j1 j2 by simp
  show ?thesis
    using res sel rat b(3) tb j pre by blast
qed

lemma train_ft_first_step:
  assumes li: "log_interval a \<noteq> 0" and ne: "batches l \<noteq> []"
      and run: "train_ft a N s l e = Inr s'"
  shows "Step e (rates (optimizer s)) \<in> set (journal s') \<and> set (journal s) \<subseteq> set (journal s')"
proof -
  obtain b bs where bl: "batches l = b # bs" using ne by (cases "batches l") auto
  let ?s0 = "s\<lparr>model := (model s)\<lparr>training := True\<rparr>\<rparr>"
  let ?u = "update N a (param_groups (optimizer ?s0)) (slots (optimizer ?s0)) (params (model ?s0)) b"
  let ?s1 = "?s0\<lparr>model := (model ?s0)\<lparr>params := snd ?u\<rparr>,
                  optimizer := (optimizer ?s0)\<lparr>slots := fst ?u\<rparr>,
                  journal := journal ?s0 @ [Step e (rates (optimizer ?s0))]\<rparr>"
  let ?pl = "\<lparr>p_epoch = e, p_seen = 0 * int (length b), p_total = length (dataset l),
              p_percent = 100 * real_of_int 0 / real (length (batches l)),
              p_loss = batch_loss_mean N (params (model ?s0)) b, p_size_loss = None, p_ops_loss = None\<rparr>"
  let ?s2 = "?s1\<lparr>journal := journal ?s1 @ [Progress ?pl]\<rparr>"
  have j2: "journal ?s2 = journal s @ [Step e (rates (optimizer s)), Progress ?pl]"
    by (simp add: rates_def)
  show ?thesis
  proof (cases "dry_run a")
    case True
    with run li have "s' = ?s2" by (simp add: train_ft_def bl Let_def)
    then show ?thesis using j2 by auto
  next
    case False
    with run li have r: "train_ft_batches a N (length (dataset l)) (length (batches l)) e 1 bs ?s2 = Inr s'"
      by (simp add: train_ft_def bl Let_def)
    from train_ft_batches_result [OF li, of N "length (dataset l)" "length (batches l)" e 1 bs ?s2] r
    obtain evs where "journal s' = journal ?s2 @ evs" by auto
    then show ?thesis using j2 by auto
  qed
qed

lemma ft_epoch_steps:
  assumes li: "log_interval a \<noteq> 0" and ne: "batches trl \<noteq> []"
      and run: "ft_epoch a N trl vl tel path e (s, k) = Inr (s', k')"
  shows "Step e (rates (optimizer s)) \<in> set (journal s') \<and> set (journal s) \<subseteq> set (journal s')"
proof -
  from run obtain s1 tail where t: "train_ft a N s trl e = Inr s1"
    and j: "journal s' = journal s1 @ tail"
    by (auto simp: ft_epoch_def Let_def split: sum.splits option.splits if_splits)
  from train_ft_first_step [OF li ne t] show ?thesis using j by auto
qed

lemma ft_epochs_steps:
  assumes li: "log_interval a \<noteq> 0" and ne: "batches trl \<noteq> []"
  shows "ft_epochs a N trl vl tel path [i..j] (s, k) = Inr (s', k') \<Longrightarrow>
     set (journal s) \<subseteq> set (journal s') \<and> (\<forall>e. i \<le> e \<and> e \<le> j \<longrightarrow> (\<exists>rs. Step e rs \<in> set (journal s')))"
proof (induction i j arbitrary: s k rule: upto.induct)
  case (1 i j)
  show ?case
  proof (cases "i \<le> j")
    case True
    with "1.prems" obtain s1 k1 where
      r1: "ft_epoch a N trl vl tel path i (s, k) = Inr (s1, k1)"
      and r2: "ft_epochs a N trl vl tel path [i + 1..j] (s1, k1) = Inr (s', k')"
      by (auto simp: upto_rec1 split: sum.splits)
    from ft_epoch_steps [OF li ne r1] have
      a: "Step i (rates (optimizer s)) \<in> set (journal s1)" "set (journal s) \<subseteq> set (journal s1)"
      by simp_all
    from "1.IH" [OF True r2] have
      b: "set (journal s1) \<subseteq> set (journal s')"
         "\<forall>e. i + 1 \<le> e \<and> e \<le> j \<longrightarrow> (\<exists>rs. Step e rs \<in> set (journal s'))"
      by simp_all
    have "\<exists>rs. Step e rs \<in> set (journal s')" if "i \<le> e" "e \<le> j" for e
    proof (cases "e = i")
      case True
      then show ?thesis using a(1) b(1) by auto
    next
      case False
      with that have "i + 1 \<le> e \<and> e \<le> j" by simp
      with b(2) show ?thesis by blast
    qed
    then show ?thesis using a(2) b(1) by blast
  next
    case False
    with "1.prems" show ?thesis by auto
  qed
qed

lemma ft_main_steps:
  assumes cu: "\<not> no_cuda a" "cuda_available E" and li: "log_interval a \<noteq> 0"
      and ne: "batches (ft_train_loader a E) \<noteq> []"
      and run: "ft_main a E N = Inr (s, k)"
  shows "\<forall>e. 1 \<le> e \<and> e \<le> epochs a \<longrightarrow> (\<exists>rs. Step e rs \<in> set (journal s))"
proof -
  from run cu obtain s1 k1 tail where
    loop: "ft_epochs a N (ft_train_loader a E) (ft_val_loader a E)
             (DataLoader E (test_data E)
                [(''batch_size'', KInt (test_batch_size a)), (''num_workers'', KInt 4),
                 (''pin_memory'', KBool True), (''shuffle'', KBool True)])
             (checkpoint_path (fmt_1e E) ''ft_'' a) [1..epochs a]
             (\<lparr>model = \<lparr>params = build_model E (arch a) (found_model a) True, training = True\<rparr>,
               optimizer = \<lparr>param_groups = [\<lparr>pg_lr = lr a, pg_weight_decay = 1 / 10000\<rparr>],
                            slots = initial_slots E\<rparr>,
               journal = [], files = saved_models E\<rparr>,
              \<lparr>val_acc = [0 \<mapsto> 0], test_acc = Map.empty, best_epoch = 0\<rparr>) = Inr (s1, k1)"
    and j: "journal s = journal s1 @ tail"
    by (auto simp: ft_main_def ft_train_loader_def ft_val_loader_def Let_def
             split: sum.splits option.splits)
  from ft_epochs_steps [OF li ne loop] j show ?thesis by auto
qed

lemma search_loss_tensor:
  assumes "sd \<noteq> []" and "od \<noteq> []"
  shows "\<exists>ls v. search_loss a nll sd od = Inr ls \<and> loss_ops ls = Tensor v"
  using assms by (simp add: search_loss_def py_sum_def Let_def)

lemma train_search_batches_succeeds:
  assumes li: "log_interval a \<noteq> 0"
      and wf: "\<forall>p. size_dict N p \<noteq> [] \<and> ops_dict N p \<noteq> []"
  shows "\<exists>s'. train_search_batches a N ns nb e i bs s = Inr s' \<and> files s' = files s"
proof (induction bs arbitrary: i s)
  case Nil
  show ?case by simp
next
  case (Cons b bs)
  let ?p = "params (model s)"
  from wf have "size_dict N ?p \<noteq> []" "ops_dict N ?p \<noteq> []" by simp_all
  from search_loss_tensor [OF this, of a "batch_loss_mean N ?p b"] obtain ls v where
    ls: "search_loss a (batch_loss_mean N ?p b) (size_dict N ?p) (ops_dict N ?p) = Inr ls"
        "loss_ops ls = Tensor v"
    by blast
  let ?u = "update N a (param_groups (optimizer s)) (slots (optimizer s)) ?p b"
  let ?s1 = "s\<lparr>model := (model s)\<lparr>params := snd ?u\<rparr>,
                optimizer := (optimizer s)\<lparr>slots := fst ?u\<rparr>,
                journal := journal s @ [Step e (rates (optimizer s))]\<rparr>"
  let ?s2 = "?s1\<lparr>journal := journal ?s1 @
               [Progress \<lparr>p_epoch = e, p_seen = i * int (length b), p_total = ns,
                          p_percent = 100 * real_of_int i / real nb,
                          p_loss = loss ls, p_size_loss = Some (loss_size ls),
                          p_ops_loss = Some v\<rparr>]\<rparr>"
  from Cons.IH [of "i + 1" ?s1] obtain sa where
    a: "train_search_batches a N ns nb e (i + 1) bs ?s1 = Inr sa" "files sa = files ?s1" by blast
  from Cons.IH [of "i + 1" ?s2] obtain sb where
    b: "train_search_batches a N ns nb e (i + 1) bs ?s2 = Inr sb" "files sb = files ?s2" by blast
  show ?case
    using li a b by (simp add: ls Let_def)
qed

lemma search_epochs_succeeds:
  assumes li: "log_interval a \<noteq> 0"
      and wf: "\<forall>p. size_dict N p \<noteq> [] \<and> ops_dict N p \<noteq> []"
      and tn: "dataset tel \<noteq> []"
  shows "\<exists>s'. search_epochs a N trl tel es s = Inr s' \<and> files s' = files s"
proof (induction es arbitrary: s)
  case Nil
  show ?case by simp
next
  case (Cons e es)
  from train_search_batches_succeeds [OF li wf, of "length (dataset trl)" "length (batches trl)" e 0
         "batches trl" "s\<lparr>model := (model s)\<lparr>training := True\<rparr>\<rparr>"]
  obtain s1 where t: "train_search a N s trl e = Inr s1" "files s1 = files s"
    by (auto simp: train_search_def)
  from test_search_result [OF tn, of N "model s1"] obtain r where
    r: "test_search N (model s1) tel = Inr r" by blast
  let ?s2 = "s1\<lparr>model := model_after r, journal := journal s1 @ [Report (report r)],
                 optimizer := scheduler_step (gamma a) (optimizer s1)\<rparr>"
  have ep: "search_epoch a N trl tel e s = Inr ?s2"
    by (simp add: search_epoch_def t(1) r)
  from Cons.IH [of ?s2] obtain s' where
    "search_epochs a N trl tel es ?s2 = Inr s'" "files s' = files ?s2" by blast
  then show ?case using ep t(2) by simp
qed

lemma complexity_succeeds:
  assumes "\<forall>p. size_dict N p \<noteq> [] \<and> ops_dict N p \<noteq> []"
  shows "\<exists>c. complexity N p = Inr c"
  using assms by (simp add: complexity_def py_sum_def)

lemma search_main_saves_final:
  assumes li: "log_interval a \<noteq> 0"
      and wf: "\<forall>p. size_dict N p \<noteq> [] \<and> ops_dict N p \<noteq> []"
      and tn: "test_data E \<noteq> []" and ec: "\<not> eval_complexity a"
  shows "\<exists>s :: ('p, 'o) run. search_main a E N = Inr s
           \<and> files s = (saved_models E)(checkpoint_path (fmt_1e E) ''srch_'' a \<mapsto> params (model s))"
proof -
  let ?use = "\<not> no_cuda a \<and> cuda_available E"
  let ?ck = "[(''num_workers'', KInt 1), (''pin_memory'', KBool True), (''shuffle'', KBool True)]"
  let ?trl = "DataLoader E (train_data E) ([(''batch_size'', KInt (batch_size a))] @ (if ?use then ?ck else []))"
  let ?tel = "DataLoader E (test_data E) ([(''batch_size'', KInt (test_batch_size a))] @ (if ?use then ?ck else []))"
  let ?s0 = "\<lparr>model = \<lparr>params = build_model E (arch a) None False, training = True\<rparr>,
              optimizer = \<lparr>param_groups = [\<lparr>pg_lr = lr a, pg_weight_decay = 0\<rparr>],
                           slots = initial_slots E\<rparr>,
              journal = [], files = saved_models E\<rparr> :: ('p, 'o) run"
  have tn': "dataset ?tel \<noteq> []" using tn by (simp add: DataLoader_def)
  from test_search_result [OF tn', of N "model ?s0"] obtain r0 where
    r0: "test_search N (model ?s0) ?tel = Inr r0" by blast
  let ?s1 = "?s0\<lparr>model := model_after r0, journal := journal ?s0 @ [Report (report r0)]\<rparr>"
  from complexity_succeeds [OF wf, of "params (model ?s1)"] obtain ci where
    ci: "complexity N (params (model ?s1)) = Inr ci" by blast
  let ?s2 = "?s1\<lparr>journal := journal ?s1 @ [Complexity (fst ci) (snd ci)]\<rparr>"
  from search_epochs_succeeds [OF li wf tn', of ?trl "[1..epochs a]" ?s2] obtain s3 where
    s3: "search_epochs a N ?trl ?tel [1..epochs a] ?s2 = Inr s3" "files s3 = files ?s2" by blast
  from complexity_succeeds [OF wf, of "params (model s3)"] obtain cf where
    cf: "complexity N (params (model s3)) = Inr cf" by blast
  have "search_main a E N =
          Inr (s3\<lparr>journal := journal s3 @ [Complexity (fst cf) (snd cf),
                                             Saved (checkpoint_path (fmt_1e E) ''srch_'' a)],
                  files := (files s3)(checkpoint_path (fmt_1e E) ''srch_'' a \<mapsto> params (model s3))\<rparr>)"
    using ec r0 ci s3(1) cf by (simp add: search_main_def Let_def)
  then show ?thesis using s3(2) by simp
qed


lemmas demo_defs = demo_args_def demo_env_def demo_net_def demo_data_def

lemma demo_ft_preconditions:
  "\<not> no_cuda demo_args" "cuda_available demo_env" "log_interval demo_args \<noteq> 0"
  "val_data demo_env \<noteq> []" "test_data demo_env \<noteq> []" "1 \<le> epochs demo_args"
  "batches (ft_train_loader demo_args demo_env) \<noteq> []"
  by (simp_all add: demo_defs ft_train_loader_def DataLoader_def)

text \<open>
  Claim C4, as stated, fails: in a 50-epoch run with the default initial rate, the
  optimizer step of epoch 50 runs under the rate \<open>1e-2\<close>, while the schedule assigns
  \<open>5e-3\<close> to epoch 50.
\<close>

theorem rate_of_epoch_50_is_not_scheduled:
  "\<not> isl (ft_main (demo_args\<lparr>epochs := 50\<rparr>) demo_env demo_net)
   \<and> Step 50 [1 / 100] \<in> set (journal (fst (projr (ft_main (demo_args\<lparr>epochs := 50\<rparr>) demo_env demo_net))))
   \<and> schedule_lr 50 = 5 / 1000"
proof -
  let ?a = "demo_args\<lparr>epochs := 50\<rparr>"
  have pre: "\<not> no_cuda ?a" "cuda_available demo_env" "log_interval ?a \<noteq> 0"
    "val_data demo_env \<noteq> []" "test_data demo_env \<noteq> []" "1 \<le> epochs ?a"
    "batches (ft_train_loader ?a demo_env) \<noteq> []"
    by (simp_all add: demo_defs ft_train_loader_def DataLoader_def)
  from ft_main_run [OF pre(1-6), of demo_net] obtain s :: "(nat, unit) run" and k where
    r: "ft_main ?a demo_env demo_net = Inr (s, k)" and rat: "rated ?a (epochs ?a) s"
    by blast
  from ft_main_steps [OF pre(1,2,3,7) r]
  have "(1::int) \<le> 50 \<and> 50 \<le> epochs ?a \<longrightarrow> (\<exists>rs. Step 50 rs \<in> set (journal s))"
    by (rule spec)
  then obtain rs where st: "Step 50 rs \<in> set (journal s)"
    by auto
  from rat st have "rs = [if (50::int) \<le> 1 then lr ?a else schedule_lr (50 - 1)]"
    unfolding rated_def by blast
  then have "rs = [1 / 100]" by (simp add: schedule_lr_def)
  with st r show ?thesis by (simp add: schedule_lr_def)
qed

text \<open>
  Claim C4, amended. The rate scheduled for epoch \<open>n\<close> is written after the training and
  the evaluations of epoch \<open>n\<close>. So every optimizer step of epoch 1 runs under the
  initial rate \<^verbatim>\<open>args.lr\<close>, every step of an epoch \<open>n \<ge> 2\<close> under the rate scheduled
  for \<open>n - 1\<close> (and each epoch has such a step when the training loader has a batch),
  and after the last epoch the optimizer holds the rate scheduled for that epoch.
\<close>

theorem learning_rate_in_force:
  assumes "\<not> no_cuda a" and "cuda_available E" and "log_interval a \<noteq> 0"
      and "val_data E \<noteq> []" and "test_data E \<noteq> []" and "1 \<le> epochs a"
  shows "\<exists>(s :: ('p, 'o) run) k.
      ft_main a E N = Inr (s, k)
    \<and> (\<forall>e rs. Step e rs \<in> set (journal s) \<longrightarrow>
           1 \<le> e \<and> e \<le> epochs a \<and> rs = [if e \<le> 1 then lr a else schedule_lr (e - 1)])
    \<and> (batches (ft_train_loader a E) \<noteq> [] \<longrightarrow>
         (\<forall>e. 1 \<le> e \<and> e \<le> epochs a \<longrightarrow>
              Step e [if e \<le> 1 then lr a else schedule_lr (e - 1)] \<in> set (journal s)))
    \<and> rates (optimizer s) = [schedule_lr (epochs a)]"
proof -
  from ft_main_run [OF assms, of N] obtain s :: "('p, 'o) run" and k where
    r: "ft_main a E N = Inr (s, k)" and rat: "rated a (epochs a) s"
    by blast
  from rat have st: "\<forall>e rs. Step e rs \<in> set (journal s) \<longrightarrow>
           1 \<le> e \<and> e \<le> epochs a \<and> rs = [if e \<le> 1 then lr a else schedule_lr (e - 1)]"
    and fin: "rates (optimizer s) = [schedule_lr (epochs a)]"
    using assms(6) unfolding rated_def by auto
  have ex: "Step e [if e \<le> 1 then lr a else schedule_lr (e - 1)] \<in> set (journal s)"
    if ne: "batches (ft_train_loader a E) \<noteq> []" and e: "1 \<le> e" "e \<le> epochs a" for e
  proof -
    from ft_main_steps [OF assms(1,2,3) ne r] e obtain rs where m: "Step e rs \<in> set (journal s)"
      by blast
    with st have "rs = [if e \<le> 1 then lr a else schedule_lr (e - 1)]" by blast
    with m show ?thesis by simp
  qed
  show ?thesis using r st ex fin by blast
qed

theorem learning_rate_in_force_witness:
  "\<exists>(s :: (nat, unit) run) k.
      ft_main demo_args demo_env demo_net = Inr (s, k)
    \<and> (\<forall>e rs. Step e rs \<in> set (journal s) \<longrightarrow>
           1 \<le> e \<and> e \<le> 2 \<and> rs = [if e \<le> 1 then 1 / 100 else schedule_lr (e - 1)])
    \<and> Step 1 [1 / 100] \<in> set (journal s) \<and> Step 2 [schedule_lr 1] \<in> set (journal s)
    \<and> rates (optimizer s) = [schedule_lr 2]"
proof -
  have e: "epochs demo_args = 2" and l: "lr demo_args = 1 / 100" by (simp_all add: demo_args_def)
  from learning_rate_in_force [OF demo_ft_preconditions(1-6), of demo_net]
  obtain s :: "(nat, unit) run" and k where
    r: "ft_main demo_args demo_env demo_net = Inr (s, k)"
    and st: "\<forall>e rs. Step e rs \<in> set (journal s) \<longrightarrow>
           1 \<le> e \<and> e \<le> 2 \<and> rs = [if e \<le> 1 then 1 / 100 else schedule_lr (e - 1)]"
    and ex: "batches (ft_train_loader demo_args demo_env) \<noteq> [] \<longrightarrow>
         (\<forall>e. 1 \<le> e \<and> e \<le> 2 \<longrightarrow>
              Step e [if e \<le> 1 then 1 / 100 else schedule_lr (e - 1)] \<in> set (journal s))"
    and fin: "rates (optimizer s) = [schedule_lr 2]"
    unfolding e l by blast
  from ex demo_ft_preconditions(7) have
    all: "\<forall>e. 1 \<le> e \<and> e \<le> 2 \<longrightarrow>
              Step e [if e \<le> 1 then 1 / 100 else schedule_lr (e - 1)] \<in> set (journal s)"
    by blast
  from all [rule_format, of 1] all [rule_format, of 2]
  have "Step 1 [1 / 100] \<in> set (journal s)" "Step 2 [schedule_lr 1] \<in> set (journal s)"
    by simp_all
  with r st fin show ?thesis by blast
qed


lemma search_main_demo:
  "search_main demo_args demo_env demo_net =
     Inr \<lparr>model = \<lparr>params = 2, training = False\<rparr>,
          optimizer = \<lparr>param_groups = [\<lparr>pg_lr = 49 / 10000, pg_weight_decay = 0\<rparr>], slots = ()\<rparr>,
          journal =
            [Report \<lparr>scope = ''Test'', average_loss = 3 / 4, n_correct = 1, n_total = 4, accuracy = 25\<rparr>,
             Complexity 8 16,
             Step 1 [1 / 100],
             Progress \<lparr>p_epoch = 1, p_seen = 0, p_total = 4, p_percent = 0, p_loss = 3 / 4,
                       p_size_loss = Some 0, p_ops_loss = Some 0\<rparr>,
             Report \<lparr>scope = ''Test'', average_loss = 1 / 4, n_correct = 3, n_total = 4, accuracy = 75\<rparr>,
             Step 2 [7 / 1000],
             Progress \<lparr>p_epoch = 2, p_seen = 0, p_total = 4, p_percent = 0, p_loss = 1 / 4,
                       p_size_loss = Some 0, p_ops_loss = Some 0\<rparr>,
             Report \<lparr>scope = ''Test'', average_loss = 3 / 4, n_correct = 1, n_total = 4, accuracy = 25\<rparr>,
             Complexity 8 16,
             Saved ''saved_models/srch_plain_dscnn_target-0.0e+00_cdops-0.0e+00.pth.tar''],
          files = [''saved_models/srch_plain_dscnn_target-0.0e+00_cdops-0.0e+00.pth.tar'' \<mapsto> 2]\<rparr>"
  by (simp add: search_main_def demo_defs Let_def DataLoader_def test_search_def
        batch_loss_sum_def batch_correct_def argmax_def complexity_def py_sum_def
        upto_rec1 search_epoch_def train_search_def search_loss_def batch_loss_mean_def
        scheduler_step_def rates_def checkpoint_path_def numeral_2_eq_2)

text \<open>
  Claim C5, as stated, fails for the search driver: in the two-epoch run the accuracy
  printed after epoch 1 is \<open>75\<close>, but the file holds the parameters after epoch 2,
  whose accuracy is \<open>25\<close>.
\<close>

theorem search_checkpoint_is_not_best:
  "\<not> isl (search_main demo_args demo_env demo_net)
   \<and> files (projr (search_main demo_args demo_env demo_net))
        (checkpoint_path (fmt_1e demo_env) ''srch_'' demo_args) = Some 2
   \<and> Report \<lparr>scope = ''Test'', average_loss = 1 / 4, n_correct = 3, n_total = 4, accuracy = 75\<rparr>
        \<in> set (journal (projr (search_main demo_args demo_env demo_net)))
   \<and> test_search demo_net \<lparr>params = 2, training = False\<rparr>
        (DataLoader demo_env (test_data demo_env)
           [(''batch_size'', KInt 1000), (''num_workers'', KInt 1), (''pin_memory'', KBool True),
            (''shuffle'', KBool True)])
      = Inr \<lparr>model_after = \<lparr>params = 2, training = False\<rparr>,
             report = \<lparr>scope = ''Test'', average_loss = 3 / 4, n_correct = 1, n_total = 4,
                       accuracy = 25\<rparr>,
             returned = None\<rparr>"
proof -
  have t: "test_search demo_net \<lparr>params = 2, training = False\<rparr>
        (DataLoader demo_env (test_data demo_env)
           [(''batch_size'', KInt 1000), (''num_workers'', KInt 1), (''pin_memory'', KBool True),
            (''shuffle'', KBool True)])
      = Inr \<lparr>model_after = \<lparr>params = 2, training = False\<rparr>,
             report = \<lparr>scope = ''Test'', average_loss = 3 / 4, n_correct = 1, n_total = 4,
                       accuracy = 25\<rparr>,
             returned = None\<rparr>"
    by (simp add: test_search_def demo_defs DataLoader_def Let_def
          batch_loss_sum_def batch_correct_def argmax_def)
  have p: "checkpoint_path (fmt_1e demo_env) ''srch_'' demo_args
             = ''saved_models/srch_plain_dscnn_target-0.0e+00_cdops-0.0e+00.pth.tar''"
    by (simp add: checkpoint_path_def demo_defs)
  show ?thesis unfolding search_main_demo p using t by simp
qed

lemma train_search_turn:
  assumes li: "log_interval a \<noteq> 0"
      and sz: "size_dict N (params (model s)) \<noteq> []" and op: "ops_dict N (params (model s)) \<noteq> []"
  shows "train_search_batches a N ns nb e i (b # bs) s =
     (let p = params (model s);
          l_size = cd_size a * \<bar>aggregate (size_dict N p) - size_target a\<bar>;
          l_ops = cd_ops a * aggregate (ops_dict N p);
          total = batch_loss_mean N p b + l_size + l_ops;
          u = update N a (param_groups (optimizer s)) (slots (optimizer s)) p b;
          s1 = s\<lparr>model := (model s)\<lparr>params := snd u\<rparr>,
                 optimizer := (optimizer s)\<lparr>slots := fst u\<rparr>,
                 journal := journal s @ [Step e (rates (optimizer s))]\<rparr>;
          s2 = s1\<lparr>journal := journal s1 @
                 [Progress \<lparr>p_epoch = e, p_seen = i * int (length b), p_total = ns,
                            p_percent = 100 * real_of_int i / real nb,
                            p_loss = total, p_size_loss = Some l_size, p_ops_loss = Some l_ops\<rparr>]\<rparr>
      in if i mod log_interval a = 0
         then (if dry_run a then Inr s2 else train_search_batches a N ns nb e (i + 1) bs s2)
         else train_search_batches a N ns nb e (i + 1) bs s1)"
  using li by (simp add: search_loss_value [OF sz op] Let_def)

lemma train_search_batches_lines:
  assumes li: "log_interval a \<noteq> 0"
      and wf: "\<forall>p. size_dict N p \<noteq> [] \<and> ops_dict N p \<noteq> []"
  shows "\<exists>s' evs. train_search_batches a N ns nb e i bs s = Inr s' \<and> journal s' = journal s @ evs
     \<and> (\<forall>pl. Progress pl \<in> set evs \<longrightarrow>
           (\<exists>p b. b \<in> set bs
              \<and> p_size_loss pl = Some (cd_size a * \<bar>aggregate (size_dict N p) - size_target a\<bar>)
              \<and> p_ops_loss pl = Some (cd_ops a * aggregate (ops_dict N p))
              \<and> p_loss pl = batch_loss_mean N p b
                     + cd_size a * \<bar>aggregate (size_dict N p) - size_target a\<bar>
                     + cd_ops a * aggregate (ops_dict N p)))"
proof -
  define good where "good = (\<lambda>bs' (pl :: progress). \<exists>p b'. b' \<in> set bs'
              \<and> p_size_loss pl = Some (cd_size a * \<bar>aggregate (size_dict N p) - size_target a\<bar>)
              \<and> p_ops_loss pl = Some (cd_ops a * aggregate (ops_dict N p))
              \<and> p_loss pl = batch_loss_mean N p b'
                     + cd_size a * \<bar>aggregate (size_dict N p) - size_target a\<bar>
                     + cd_ops a * aggregate (ops_dict N p))"
  have mono: "good (b # bs) pl" if "good bs pl" for b bs pl
    using that unfolding good_def by auto
  have main: "\<exists>s' evs. train_search_batches a N ns nb e i bs s = Inr s' \<and> journal s' = journal s @ evs
     \<and> (\<forall>pl. Progress pl \<in> set evs \<longrightarrow> good bs pl)" for i bs s
  proof (induction bs arbitrary: i s)
    case Nil
    show ?case by simp
  next
    case (Cons b bs)
    let ?p = "params (model s)"
    let ?l_size = "cd_size a * \<bar>aggregate (size_dict N ?p) - size_target a\<bar>"
    let ?l_ops = "cd_ops a * aggregate (ops_dict N ?p)"
    let ?u = "update N a (param_groups (optimizer s)) (slots (optimizer s)) ?p b"
    let ?s1 = "s\<lparr>model := (model s)\<lparr>params := snd ?u\<rparr>,
                  optimizer := (optimizer s)\<lparr>slots := fst ?u\<rparr>,
                  journal := journal s @ [Step e (rates (optimizer s))]\<rparr>"
    let ?pl = "\<lparr>p_epoch = e, p_seen = i * int (length b), p_total = ns,
                p_percent = 100 * real_of_int i / real nb,
                p_loss = batch_loss_mean N ?p b + ?l_size + ?l_ops,
                p_size_loss = Some ?l_size, p_ops_loss = Some ?l_ops\<rparr>"
    let ?s2 = "?s1\<lparr>journal := journal ?s1 @ [Progress ?pl]\<rparr>"
    from wf have sz: "size_dict N ?p \<noteq> []" and op: "ops_dict N ?p \<noteq> []" by simp_all
    note turn = train_search_turn [OF li sz op, of ns nb e i b bs, unfolded Let_def]
    have gpl: "good (b # bs) ?pl"
      unfolding good_def by (rule exI [of _ ?p], rule exI [of _ b]) simp
    show ?case
    proof (cases "i mod log_interval a = 0")
      case True
      show ?thesis
      proof (cases "dry_run a")
        case True
        have r: "train_search_batches a N ns nb e i (b # bs) s = Inr ?s2"
          using turn \<open>i mod log_interval a = 0\<close> True by simp
        have j: "journal ?s2 = journal s @ [Step e (rates (optimizer s)), Progress ?pl]" by simp
        have g: "\<forall>pl. Progress pl \<in> set [Step e (rates (optimizer s)), Progress ?pl] \<longrightarrow> good (b # bs) pl"
          using gpl by simp
        show ?thesis unfolding r using j g by blast
      next
        case False
        have r: "train_search_batches a N ns nb e i (b # bs) s = train_search_batches a N ns nb e (i + 1) bs ?s2"
          using turn \<open>i mod log_interval a = 0\<close> False by simp
        from Cons.IH [of "i + 1" ?s2] obtain s' evs where
          h: "train_search_batches a N ns nb e (i + 1) bs ?s2 = Inr s'" "journal s' = journal ?s2 @ evs"
             "\<forall>pl. Progress pl \<in> set evs \<longrightarrow> good bs pl"
          by blast
        have j: "journal s' = journal s @ (Step e (rates (optimizer s)) # Progress ?pl # evs)"
          using h(2) by simp
        have g: "\<forall>pl. Progress pl \<in> set (Step e (rates (optimizer s)) # Progress ?pl # evs)
                   \<longrightarrow> good (b # bs) pl"
          using gpl h(3) mono by auto
        show ?thesis unfolding r using h(1) j g by blast
      qed
    next
      case False
      have r: "train_search_batches a N ns nb e i (b # bs) s = train_search_batches a N ns nb e (i + 1) bs ?s1"
        using turn False by simp
      from Cons.IH [of "i + 1" ?s1] obtain s' evs where
        h: "train_search_batches a N ns nb e (i + 1) bs ?s1 = Inr s'" "journal s' = journal ?s1 @ evs"
           "\<forall>pl. Progress pl \<in> set evs \<longrightarrow> good bs pl"
        by blast
      have j: "journal s' = journal s @ (Step e (rates (optimizer s)) # evs)"
        using h(2) by simp
      have g: "\<forall>pl. Progress pl \<in> set (Step e (rates (optimizer s)) # evs) \<longrightarrow> good (b # bs) pl"
        using h(3) mono by auto
      show ?thesis unfolding r using h(1) j g by blast
    qed
  qed
  show ?thesis using main [of i bs s] unfolding good_def .
qed

text \<open>
  Claim C1. In the training loop of the search driver, on a model whose complexity
  dictionaries are not empty, every turn computes from the current parameters \<open>p\<close> and
  the batch \<open>b\<close> the total loss: the classification loss of \<open>b\<close> plus
  \<open>cd_size * |aggregate_size - size_target|\<close> plus \<open>cd_ops * aggregate_ops\<close>, where the
  aggregates are the sums of \<open>size_dict N p\<close> and \<open>ops_dict N p\<close>; these are the three
  numbers of the turn's progress line, and every progress line of a call of
  \<^verbatim>\<open>train\<close> has this form for a batch of the loader. With \<open>size_target = 0\<close>,
  \<open>cd_size = 1\<close> and non-negative per-layer sizes (the data model's invariant) the size
  sub-loss is the aggregate size itself.
\<close>

theorem search_train_loss:
  assumes "log_interval a \<noteq> 0"
      and "\<forall>p. size_dict N p \<noteq> [] \<and> ops_dict N p \<noteq> []"
  shows "train_search_batches a N ns nb e i (b # bs) s =
     (let p = params (model s);
          l_size = cd_size a * \<bar>aggregate (size_dict N p) - size_target a\<bar>;
          l_ops = cd_ops a * aggregate (ops_dict N p);
          total = batch_loss_mean N p b + l_size + l_ops;
          u = update N a (param_groups (optimizer s)) (slots (optimizer s)) p b;
          s1 = s\<lparr>model := (model s)\<lparr>params := snd u\<rparr>,
                 optimizer := (optimizer s)\<lparr>slots := fst u\<rparr>,
                 journal := journal s @ [Step e (rates (optimizer s))]\<rparr>;
          s2 = s1\<lparr>journal := journal s1 @
                 [Progress \<lparr>p_epoch = e, p_seen = i * int (length b), p_total = ns,
                            p_percent = 100 * real_of_int i / real nb,
                            p_loss = total, p_size_loss = Some l_size, p_ops_loss = Some l_ops\<rparr>]\<rparr>
      in if i mod log_interval a = 0
         then (if dry_run a then Inr s2 else train_search_batches a N ns nb e (i + 1) bs s2)
         else train_search_batches a N ns nb e (i + 1) bs s1)
   \<and> (\<exists>s' evs. train_search a N s l e = Inr s' \<and> journal s' = journal s @ evs
        \<and> (\<forall>pl. Progress pl \<in> set evs \<longrightarrow>
              (\<exists>p b. b \<in> set (batches l)
                 \<and> p_size_loss pl = Some (cd_size a * \<bar>aggregate (size_dict N p) - size_target a\<bar>)
                 \<and> p_ops_loss pl = Some (cd_ops a * aggregate (ops_dict N p))
                 \<and> p_loss pl = batch_loss_mean N p b
                        + cd_size a * \<bar>aggregate (size_dict N p) - size_target a\<bar>
                        + cd_ops a * aggregate (ops_dict N p))))
   \<and> (\<forall>p. size_target a = 0 \<and> cd_size a = 1 \<and> (\<forall>v \<in> snd ` set (size_dict N p). 0 \<le> v) \<longrightarrow>
          cd_size a * \<bar>aggregate (size_dict N p) - size_target a\<bar> = aggregate (size_dict N p))"
proof -
  from assms(2) have sz: "size_dict N (params (model s)) \<noteq> []"
    and op: "ops_dict N (params (model s)) \<noteq> []" by simp_all
  note turn = train_search_turn [OF assms(1) sz op, of ns nb e i b bs]
  let ?s0 = "s\<lparr>model := (model s)\<lparr>training := True\<rparr>\<rparr>"
  from train_search_batches_lines [OF assms, of "length (dataset l)" "length (batches l)" e 0 "batches l" ?s0]
  have loop: "\<exists>s' evs. train_search a N s l e = Inr s' \<and> journal s' = journal s @ evs
        \<and> (\<forall>pl. Progress pl \<in> set evs \<longrightarrow>
              (\<exists>p b. b \<in> set (batches l)
                 \<and> p_size_loss pl = Some (cd_size a * \<bar>aggregate (size_dict N p) - size_target a\<bar>)
                 \<and> p_ops_loss pl = Some (cd_ops a * aggregate (ops_dict N p))
                 \<and> p_loss pl = batch_loss_mean N p b
                        + cd_size a * \<bar>aggregate (size_dict N p) - size_target a\<bar>
                        + cd_ops a * aggregate (ops_dict N p)))"
    by (simp add: train_search_def)
  have part: "cd_size a * \<bar>aggregate (size_dict N p) - size_target a\<bar> = aggregate (size_dict N p)"
    if "size_target a = 0" "cd_size a = 1" "\<forall>v \<in> snd ` set (size_dict N p). 0 \<le> v" for p
    using that aggregate_nonneg [OF that(3)] by simp
  show ?thesis using turn loop part by blast
qed

lemma train_search_demo:
  "train_search (demo_args\<lparr>cd_size := 1, cd_ops := 1 / 4, dry_run := False, log_interval := 1\<rparr>) demo_net
     \<lparr>model = \<lparr>params = 0, training = False\<rparr>,
      optimizer = \<lparr>param_groups = [\<lparr>pg_lr = 1, pg_weight_decay = 0\<rparr>], slots = ()\<rparr>,
      journal = [], files = Map.empty\<rparr> demo_loader 1
   = Inr \<lparr>model = \<lparr>params = 2, training = True\<rparr>,
          optimizer = \<lparr>param_groups = [\<lparr>pg_lr = 1, pg_weight_decay = 0\<rparr>], slots = ()\<rparr>,
          journal =
            [Step 1 [1],
             Progress \<lparr>p_epoch = 1, p_seen = 0, p_total = 4, p_percent = 0, p_loss = 1 + 8 + 4,
                       p_size_loss = Some 8, p_ops_loss = Some 4\<rparr>,
             Step 1 [1],
             Progress \<lparr>p_epoch = 1, p_seen = 2, p_total = 4, p_percent = 50, p_loss = 1 / 2 + 8 + 4,
                       p_size_loss = Some 8, p_ops_loss = Some 4\<rparr>],
          files = Map.empty\<rparr>"
  by (simp add: train_search_def demo_args_def demo_net_def demo_loader_def demo_data_def Let_def
        search_loss_def py_sum_def batch_loss_mean_def argmax_def rates_def numeral_2_eq_2)

theorem search_train_loss_witness:
  "\<exists>s' evs. train_search (demo_args\<lparr>cd_size := 1, cd_ops := 1 / 4, dry_run := False, log_interval := 1\<rparr>)
       demo_net
       \<lparr>model = \<lparr>params = 0, training = False\<rparr>,
        optimizer = \<lparr>param_groups = [\<lparr>pg_lr = 1, pg_weight_decay = 0\<rparr>], slots = ()\<rparr>,
        journal = [], files = Map.empty\<rparr> demo_loader 1 = Inr s'
     \<and> journal s' = evs
     \<and> Progress \<lparr>p_epoch = 1, p_seen = 0, p_total = 4, p_percent = 0, p_loss = 1 + 8 + 4,
                  p_size_loss = Some 8, p_ops_loss = Some 4\<rparr> \<in> set evs
     \<and> (\<forall>pl. Progress pl \<in> set evs \<longrightarrow>
           (\<exists>p b. b \<in> set (batches demo_loader)
              \<and> p_size_loss pl = Some (aggregate (size_dict demo_net p))
              \<and> p_ops_loss pl = Some (1 / 4 * aggregate (ops_dict demo_net p))
              \<and> p_loss pl = batch_loss_mean demo_net p b + aggregate (size_dict demo_net p)
                              + 1 / 4 * aggregate (ops_dict demo_net p)))"
proof -
  let ?a = "demo_args\<lparr>cd_size := 1, cd_ops := 1 / 4, dry_run := False, log_interval := 1\<rparr>"
  let ?s = "\<lparr>model = \<lparr>params = 0, training = False\<rparr>,
        optimizer = \<lparr>param_groups = [\<lparr>pg_lr = 1, pg_weight_decay = 0\<rparr>], slots = ()\<rparr>,
        journal = [], files = Map.empty\<rparr> :: (nat, unit) run"
  have li: "log_interval ?a \<noteq> 0" by simp
  have wf: "\<forall>p. size_dict demo_net p \<noteq> [] \<and> ops_dict demo_net p \<noteq> []"
    by (simp add: demo_net_def)
  have ag: "aggregate (size_dict demo_net p) = 8" for p
    by (simp add: aggregate_def demo_net_def)
  have c: "cd_size ?a = 1" "cd_ops ?a = 1 / 4" "size_target ?a = 0"
    by (simp_all add: demo_args_def)
  from search_train_loss [OF li wf, of 0 0 1 0 "[]" "[]" ?s demo_loader]
  have "\<exists>s' evs. train_search ?a demo_net ?s demo_loader 1 = Inr s' \<and> journal s' = journal ?s @ evs
        \<and> (\<forall>pl. Progress pl \<in> set evs \<longrightarrow>
              (\<exists>p b. b \<in> set (batches demo_loader)
                 \<and> p_size_loss pl = Some (cd_size ?a * \<bar>aggregate (size_dict demo_net p) - size_target ?a\<bar>)
                 \<and> p_ops_loss pl = Some (cd_ops ?a * aggregate (ops_dict demo_net p))
                 \<and> p_loss pl = batch_loss_mean demo_net p b
                        + cd_size ?a * \<bar>aggregate (size_dict demo_net p) - size_target ?a\<bar>
                        + cd_ops ?a * aggregate (ops_dict demo_net p)))"
    by blast
  then show ?thesis
    unfolding c by (simp add: train_search_demo ag)
qed

lemma ft_epochs_append:
  "ft_epochs a N trl vl tel path (xs @ ys) sk =
     (case ft_epochs a N trl vl tel path xs sk of
        Inl e \<Rightarrow> Inl e
      | Inr sk' \<Rightarrow> ft_epochs a N trl vl tel path ys sk')"
  by (induction xs arbitrary: sk) (auto split: sum.splits)

lemma ft_after_0: "ft_after a E N 0 = Inr (ft_start a E)"
  by (simp add: ft_after_def)

lemma ft_after_step:
  assumes "1 \<le> n"
  shows "ft_after a E N n =
     (case ft_after a E N (n - 1) of
        Inl e \<Rightarrow> Inl e
      | Inr sk \<Rightarrow> ft_epoch a N (ft_train_loader a E) (ft_val_loader a E) (ft_test_loader a E)
                    (checkpoint_path (fmt_1e E) ''ft_'' a) n sk)"
proof -
  have "[1..n] = [1..n - 1] @ [n]" using assms by (rule upto_rec2)
  then show ?thesis
    by (simp add: ft_after_def ft_epochs_append split: sum.splits)
qed

lemma ft_after_inv:
  assumes li: "log_interval a \<noteq> 0" and vn: "val_data E \<noteq> []" and tn: "test_data E \<noteq> []"
      and n0: "0 \<le> n"
  shows "\<exists>(s :: ('p, 'o) run) k. ft_after a E N n = Inr (s, k)
           \<and> selected N (ft_val_loader a E) (checkpoint_path (fmt_1e E) ''ft_'' a) n (s, k)
           \<and> rated a n s"
proof -
  let ?s0 = "fst (ft_start a E) :: ('p, 'o) run"
  let ?k0 = "snd (ft_start a E :: ('p, 'o) run \<times> selector)"
  have vn': "dataset (ft_val_loader a E) \<noteq> []" using vn by (simp add: ft_val_loader_def DataLoader_def)
  have tn': "dataset (ft_test_loader a E) \<noteq> []" using tn by (simp add: ft_test_loader_def DataLoader_def)
  have sel0: "selected N (ft_val_loader a E) (checkpoint_path (fmt_1e E) ''ft_'' a) (1 - 1) (?s0, ?k0)"
    by (simp add: selected_def ft_start_def)
  have rat0: "rated a (1 - 1) ?s0" by (simp add: rated_def rates_def ft_start_def)
  have m: "max (1 - 1) n = n" using n0 by simp
  from ft_epochs_upto [where trl = "ft_train_loader a E" and j = n, OF li vn' tn' _ sel0 rat0]
  show ?thesis unfolding m by (auto simp: ft_after_def)
qed

lemma ft_after_history:
  assumes li: "log_interval a \<noteq> 0" and vn: "val_data E \<noteq> []" and tn: "test_data E \<noteq> []"
  shows "\<exists>(s :: ('p, 'o) run) k. ft_after a E N (int m) = Inr (s, k)
     \<and> (\<forall>e. 1 \<le> e \<and> e \<le> int m \<longrightarrow>
           (\<exists>(se :: ('p, 'o) run) ke. ft_after a E N e = Inr (se, ke)
              \<and> val_acc k e = Some (accuracy_of N (params (model se)) (ft_val_loader a E))
              \<and> test_acc k e = Some (accuracy_of N (params (model se)) (ft_test_loader a E))))
     \<and> (1 \<le> int m \<longrightarrow>
           (\<exists>(sb :: ('p, 'o) run) kb. ft_after a E N (best_epoch k) = Inr (sb, kb)
              \<and> files s (checkpoint_path (fmt_1e E) ''ft_'' a) = Some (params (model sb))))"
proof (induction m)
  case 0
  obtain s0 :: "('p, 'o) run" and k0 where st: "ft_start a E = (s0, k0)" by (metis surj_pair)
  have "\<not> (1 \<le> e \<and> e \<le> int 0)" for e :: int by simp
  then show ?case using st by (auto simp: ft_after_0)
next
  case (Suc m)
  let ?path = "checkpoint_path (fmt_1e E) ''ft_'' a"
  let ?vl = "ft_val_loader a E"
  let ?tel = "ft_test_loader a E"
  define n where "n = int (Suc m)"
  have n1: "1 \<le> n" and nm: "n - 1 = int m" and nle: "\<And>e. e \<le> n \<Longrightarrow> e \<noteq> n \<Longrightarrow> e \<le> int m"
    by (simp_all add: n_def)
  have vn': "dataset ?vl \<noteq> []" using vn by (simp add: ft_val_loader_def DataLoader_def)
  have tn': "dataset ?tel \<noteq> []" using tn by (simp add: ft_test_loader_def DataLoader_def)
  from Suc.IH obtain s :: "('p, 'o) run" and k where
    prev: "ft_after a E N (int m) = Inr (s, k)"
    and h1: "\<forall>e. 1 \<le> e \<and> e \<le> int m \<longrightarrow>
           (\<exists>(se :: ('p, 'o) run) ke. ft_after a E N e = Inr (se, ke)
              \<and> val_acc k e = Some (accuracy_of N (params (model se)) ?vl)
              \<and> test_acc k e = Some (accuracy_of N (params (model se)) ?tel))"
    and h2: "1 \<le> int m \<longrightarrow>
           (\<exists>(sb :: ('p, 'o) run) kb. ft_after a E N (best_epoch k) = Inr (sb, kb)
              \<and> files s ?path = Some (params (model sb)))"
    by blast
  from ft_after_inv [where N = N and n = "int m", OF li vn tn] prev have
    sel: "selected N ?vl ?path (int m) (s, k)" by auto
  have sel': "selected N ?vl ?path (n - 1) (s, k)" using sel by (simp add: nm)
  from selected_step [where trl = "ft_train_loader a E", OF li vn' tn' n1 sel'] obtain s' k' where
    run: "ft_epoch a N (ft_train_loader a E) ?vl ?tel ?path n (s, k) = Inr (s', k')"
    and seln: "selected N ?vl ?path n (s', k')"
    by auto
  have now: "ft_after a E N n = Inr (s', k')"
    using ft_after_step [OF n1, of a E N] prev run by (simp add: nm)
  from ft_epoch_cases [OF li vn' tn' run] obtain s1 :: "('p, 'o) run" and evs rv rt vb where
    c: "files s1 = files s"
       "val_acc k' = (val_acc k)(n \<mapsto> accuracy_of N (params (model s1)) ?vl)"
       "test_acc k' = (test_acc k)(n \<mapsto> accuracy_of N (params (model s1)) ?tel)"
       "params (model s') = params (model s1)"
    and c4: "if vb \<le> accuracy_of N (params (model s1)) ?vl
        then best_epoch k' = n \<and> files s' = (files s)(?path \<mapsto> params (model s1))
             \<and> journal s' = journal s1 @ [Report rv, Report rt, Saved ?path]
        else best_epoch k' = best_epoch k \<and> files s' = files s
             \<and> journal s' = journal s1 @ [Report rv, Report rt]"
    by blast
  have g1: "\<exists>(se :: ('p, 'o) run) ke. ft_after a E N e = Inr (se, ke)
              \<and> val_acc k' e = Some (accuracy_of N (params (model se)) ?vl)
              \<and> test_acc k' e = Some (accuracy_of N (params (model se)) ?tel)"
    if e: "1 \<le> e" "e \<le> n" for e
  proof (cases "e = n")
    case True
    show ?thesis
      by (rule exI [of _ s'], rule exI [of _ k']) (simp add: True now c)
  next
    case False
    with e nle have "1 \<le> e \<and> e \<le> int m" by simp
    with h1 obtain se :: "('p, 'o) run" and ke where
      "ft_after a E N e = Inr (se, ke)"
      "val_acc k e = Some (accuracy_of N (params (model se)) ?vl)"
      "test_acc k e = Some (accuracy_of N (params (model se)) ?tel)"
      by blast
    with False show ?thesis by (simp add: c)
  qed
  have g2: "\<exists>(sb :: ('p, 'o) run) kb. ft_after a E N (best_epoch k') = Inr (sb, kb)
              \<and> files s' ?path = Some (params (model sb))"
  proof (cases "vb \<le> accuracy_of N (params (model s1)) ?vl")
    case True
    with c4 have "best_epoch k' = n" "files s' = (files s)(?path \<mapsto> params (model s1))" by simp_all
    then show ?thesis
      by (intro exI [of _ s'] exI [of _ k']) (simp add: now c)
  next
    case False
    with c4 have b: "best_epoch k' = best_epoch k" "files s' = files s" by simp_all
    from seln n1 have "1 \<le> best_epoch k'" unfolding selected_def by simp
    moreover from sel have "best_epoch k \<le> int m" unfolding selected_def by simp
    ultimately have "1 \<le> int m" using b(1) by simp
    with h2 show ?thesis by (simp add: b)
  qed
  show ?case using now g1 g2 unfolding n_def [symmetric] by blast
qed

lemma ft_after_trains:
  assumes e1: "1 \<le> e"
      and prev: "ft_after a E N (e - 1) = Inr (sp, kp)"
      and now: "ft_after a E N e = Inr (se, ke)"
  shows "\<exists>st. train_ft a N sp (ft_train_loader a E) e = Inr st \<and> params (model se) = params (model st)"
proof -
  from ft_after_step [OF e1, of a E N] prev now have
    run: "ft_epoch a N (ft_train_loader a E) (ft_val_loader a E) (ft_test_loader a E)
            (checkpoint_path (fmt_1e E) ''ft_'' a) e (sp, kp) = Inr (se, ke)"
    by simp
  then show ?thesis
    by (auto simp: ft_epoch_def Let_def test_ft_def split: sum.splits option.splits if_splits prod.splits)
qed


lemma ft_main_after:
  assumes "\<not> no_cuda a" and "cuda_available E"
  shows "ft_main a E N =
     (case ft_after a E N (epochs a) of
        Inl e \<Rightarrow> Inl e
      | Inr sk \<Rightarrow>
         (case val_acc (snd sk) (best_epoch (snd sk)) of
            None \<Rightarrow> Inl KeyError
          | Some v \<Rightarrow>
             (case test_acc (snd sk) (best_epoch (snd sk)) of
                None \<Rightarrow> Inl KeyError
              | Some t \<Rightarrow>
                  Inr ((fst sk)\<lparr>journal := journal (fst sk) @
                          [Summary ''Best Val Acc'' v (best_epoch (snd sk)),
                           Summary ''Test Acc'' t (best_epoch (snd sk))]\<rparr>,
                       snd sk))))"
  using assms
  by (simp add: ft_main_def ft_after_def ft_start_def ft_train_loader_def ft_val_loader_def
        ft_test_loader_def Let_def)

lemma ft_main_history:
  assumes cu: "\<not> no_cuda a" "cuda_available E" and li: "log_interval a \<noteq> 0"
      and vn: "val_data E \<noteq> []" and tn: "test_data E \<noteq> []" and ep: "1 \<le> epochs a"
  shows "\<exists>(s :: ('p, 'o) run) k vb.
      ft_main a E N = Inr (s, k)
    \<and> 1 \<le> best_epoch k \<and> best_epoch k \<le> epochs a
    \<and> val_acc k (best_epoch k) = Some vb
    \<and> (\<forall>e. 1 \<le> e \<and> e \<le> epochs a \<longrightarrow>
          (\<exists>(sp :: ('p, 'o) run) kp st (se :: ('p, 'o) run) ke r v.
              ft_after a E N (e - 1) = Inr (sp, kp)
            \<and> train_ft a N sp (ft_train_loader a E) e = Inr st
            \<and> ft_after a E N e = Inr (se, ke) \<and> params (model se) = params (model st)
            \<and> test_ft N (model st) (ft_val_loader a E) ''Validation'' = Inr r \<and> returned r = Some v
            \<and> val_acc k e = Some v \<and> 0 \<le> v \<and> v \<le> vb \<and> (best_epoch k < e \<longrightarrow> v < vb)
            \<and> (e = best_epoch k \<longrightarrow>
                  files s (checkpoint_path (fmt_1e E) ''ft_'' a) = Some (params (model st)))))
    \<and> (\<exists>(s1 :: ('p, 'o) run) k1. ft_after a E N 1 = Inr (s1, k1) \<and> best_epoch k1 = 1
          \<and> files s1 (checkpoint_path (fmt_1e E) ''ft_'' a) = Some (params (model s1)))"
proof -
  let ?path = "checkpoint_path (fmt_1e E) ''ft_'' a"
  let ?vl = "ft_val_loader a E"
  have vn': "dataset ?vl \<noteq> []" using vn by (simp add: ft_val_loader_def DataLoader_def)
  obtain m where m: "epochs a = int m" using ep by (metis nonneg_int_cases order_trans zero_le_one)
  from ft_after_history [where N = N and m = m, OF li vn tn] obtain sn :: "('p, 'o) run" and k where
    fin: "ft_after a E N (epochs a) = Inr (sn, k)"
    and h1: "\<forall>e. 1 \<le> e \<and> e \<le> epochs a \<longrightarrow>
           (\<exists>(se :: ('p, 'o) run) ke. ft_after a E N e = Inr (se, ke)
              \<and> val_acc k e = Some (accuracy_of N (params (model se)) ?vl)
              \<and> test_acc k e = Some (accuracy_of N (params (model se)) (ft_test_loader a E)))"
    and h2: "\<exists>(sb :: ('p, 'o) run) kb. ft_after a E N (best_epoch k) = Inr (sb, kb)
              \<and> files sn ?path = Some (params (model sb))"
    using ep unfolding m by blast
  from ft_after_inv [where N = N and n = "epochs a", OF li vn tn] fin ep have
    sel: "selected N ?vl ?path (epochs a) (sn, k)" by auto
  from sel ep obtain vb where
    b: "1 \<le> best_epoch k" "best_epoch k \<le> epochs a"
    and vb: "val_acc k (best_epoch k) = Some vb"
    and all: "\<forall>e. 1 \<le> e \<and> e \<le> epochs a \<longrightarrow>
                 (\<exists>v. val_acc k e = Some v \<and> 0 \<le> v \<and> v \<le> vb \<and> (best_epoch k < e \<longrightarrow> v < vb))
                 \<and> test_acc k e \<noteq> None"
    unfolding selected_def by auto
  from all b obtain tb where tb: "test_acc k (best_epoch k) = Some tb" by blast
  let ?s = "sn\<lparr>journal := journal sn @ [Summary ''Best Val Acc'' vb (best_epoch k),
                                          Summary ''Test Acc'' tb (best_epoch k)]\<rparr>"
  have res: "ft_main a E N = Inr (?s, k)"
    by (simp add: ft_main_after [OF cu] fin vb tb)
  have per: "\<exists>(sp :: ('p, 'o) run) kp st (se :: ('p, 'o) run) ke r v.
              ft_after a E N (e - 1) = Inr (sp, kp)
            \<and> train_ft a N sp (ft_train_loader a E) e = Inr st
            \<and> ft_after a E N e = Inr (se, ke) \<and> params (model se) = params (model st)
            \<and> test_ft N (model st) ?vl ''Validation'' = Inr r \<and> returned r = Some v
            \<and> val_acc k e = Some v \<and> 0 \<le> v \<and> v \<le> vb \<and> (best_epoch k < e \<longrightarrow> v < vb)
            \<and> (e = best_epoch k \<longrightarrow> files ?s ?path = Some (params (model st)))"
    if e: "1 \<le> e" "e \<le> epochs a" for e
  proof -
    from ft_after_inv [where N = N and n = "e - 1", OF li vn tn] e obtain sp :: "('p, 'o) run" and kp where
      prev: "ft_after a E N (e - 1) = Inr (sp, kp)" by auto
    from h1 e obtain se :: "('p, 'o) run" and ke where
      now: "ft_after a E N e = Inr (se, ke)"
      and va: "val_acc k e = Some (accuracy_of N (params (model se)) ?vl)"
      by blast
    from ft_after_trains [OF e(1) prev now] obtain st where
      tr: "train_ft a N sp (ft_train_loader a E) e = Inr st" "params (model se) = params (model st)"
      by blast
    from test_ft_accuracy [OF vn', of N "model st" "''Validation''"] obtain r where
      r: "test_ft N (model st) ?vl ''Validation'' = Inr r"
         "returned r = Some (accuracy_of N (params (model st)) ?vl)"
      by blast
    let ?v = "accuracy_of N (params (model st)) ?vl"
    have va': "val_acc k e = Some ?v" using va tr(2) by simp
    from all e va' have bnd: "0 \<le> ?v" "?v \<le> vb" "best_epoch k < e \<longrightarrow> ?v < vb" by auto
    have fl: "files ?s ?path = Some (params (model st))" if "e = best_epoch k"
    proof -
      from h2 that now tr(2) show ?thesis by auto
    qed
    show ?thesis
      using prev tr now r va' bnd fl by blast
  qed
  have first: "\<exists>(s1 :: ('p, 'o) run) k1. ft_after a E N 1 = Inr (s1, k1) \<and> best_epoch k1 = 1
          \<and> files s1 ?path = Some (params (model s1))"
  proof -
    from ft_after_history [where N = N and m = 1, OF li vn tn] obtain s1 :: "('p, 'o) run" and k1 where
      f1: "ft_after a E N 1 = Inr (s1, k1)"
      and f2: "\<exists>(sb :: ('p, 'o) run) kb. ft_after a E N (best_epoch k1) = Inr (sb, kb)
              \<and> files s1 ?path = Some (params (model sb))"
      by auto
    from ft_after_inv [where N = N and n = 1, OF li vn tn] f1 have "selected N ?vl ?path 1 (s1, k1)" by auto
    then have "best_epoch k1 = 1" unfolding selected_def by auto
    with f1 f2 show ?thesis by auto
  qed
  show ?thesis using res b vb per first by blast
qed

lemma search_epochs_append:
  "search_epochs a N trl tel (xs @ ys) s =
     (case search_epochs a N trl tel xs s of
        Inl e \<Rightarrow> Inl e
      | Inr s' \<Rightarrow> search_epochs a N trl tel ys s')"
  by (induction xs arbitrary: s) (auto split: sum.splits)

lemma search_after_step:
  assumes "1 \<le> n"
  shows "search_after a E N n =
     (case search_after a E N (n - 1) of
        Inl e \<Rightarrow> Inl e
      | Inr s \<Rightarrow> search_epoch a N (search_train_loader a E) (search_test_loader a E) n s)"
proof -
  have "[1..n] = [1..n - 1] @ [n]" using assms by (rule upto_rec2)
  then show ?thesis
    by (simp add: search_after_def search_epochs_append Let_def split: sum.splits)
qed

lemma search_after_trains:
  assumes n1: "1 \<le> n"
      and prev: "search_after a E N (n - 1) = Inr sp"
      and now: "search_after a E N n = Inr s3"
  shows "\<exists>st. train_search a N sp (search_train_loader a E) n = Inr st
           \<and> params (model s3) = params (model st)"
proof -
  from search_after_step [OF n1, of a E N] prev now have
    "search_epoch a N (search_train_loader a E) (search_test_loader a E) n sp = Inr s3"
    by simp
  then show ?thesis
    by (auto simp: search_epoch_def test_search_def Let_def split: sum.splits if_splits prod.splits)
qed

lemma search_after_succeeds:
  assumes li: "log_interval a \<noteq> 0"
      and wf: "\<forall>p. size_dict N p \<noteq> [] \<and> ops_dict N p \<noteq> []"
      and tn: "test_data E \<noteq> []"
  shows "\<exists>s :: ('p, 'o) run. search_after a E N n = Inr s"
proof -
  let ?tel = "search_test_loader a E"
  let ?s0 = "\<lparr>model = \<lparr>params = build_model E (arch a) None False, training = True\<rparr>,
              optimizer = \<lparr>param_groups = [\<lparr>pg_lr = lr a, pg_weight_decay = 0\<rparr>],
                           slots = initial_slots E\<rparr>,
              journal = [], files = saved_models E\<rparr> :: ('p, 'o) run"
  have tn': "dataset ?tel \<noteq> []" using tn by (simp add: search_test_loader_def DataLoader_def)
  from test_search_result [OF tn', of N "model ?s0"] obtain r0 where
    r0: "test_search N (model ?s0) ?tel = Inr r0" by blast
  let ?s1 = "?s0\<lparr>model := model_after r0, journal := journal ?s0 @ [Report (report r0)]\<rparr>"
  from complexity_succeeds [OF wf, of "params (model ?s1)"] obtain ci where
    ci: "complexity N (params (model ?s1)) = Inr ci" by blast
  let ?s2 = "?s1\<lparr>journal := journal ?s1 @ [Complexity (fst ci) (snd ci)]\<rparr>"
  from search_epochs_succeeds [OF li wf tn', of "search_train_loader a E" "[1..n]" ?s2] obtain s3 where
    "search_epochs a N (search_train_loader a E) ?tel [1..n] ?s2 = Inr s3" by blast
  then show ?thesis using r0 ci by (simp add: search_after_def Let_def)
qed

lemma search_main_after:
  assumes "\<not> eval_complexity a"
  shows "search_main a E N =
     (case search_after a E N (epochs a) of
        Inl e \<Rightarrow> Inl e
      | Inr s3 \<Rightarrow>
         (case complexity N (params (model s3)) of
            Inl e \<Rightarrow> Inl e
          | Inr cf \<Rightarrow>
             Inr (s3\<lparr>journal := journal s3 @ [Complexity (fst cf) (snd cf),
                                                Saved (checkpoint_path (fmt_1e E) ''srch_'' a)],
                     files := (files s3)(checkpoint_path (fmt_1e E) ''srch_'' a \<mapsto> params (model s3))\<rparr>)))"
  using assms
  by (simp add: search_main_def search_after_def search_train_loader_def search_test_loader_def
        Let_def split: sum.splits)

lemma search_main_history:
  assumes li: "log_interval a \<noteq> 0"
      and wf: "\<forall>p. size_dict N p \<noteq> [] \<and> ops_dict N p \<noteq> []"
      and tn: "test_data E \<noteq> []" and ec: "\<not> eval_complexity a"
  shows "\<exists>(s :: ('p, 'o) run) s3.
      search_main a E N = Inr s
    \<and> search_after a E N (epochs a) = Inr s3
    \<and> params (model s) = params (model s3)
    \<and> files s (checkpoint_path (fmt_1e E) ''srch_'' a) = Some (params (model s3))
    \<and> (1 \<le> epochs a \<longrightarrow>
          (\<exists>sp st. search_after a E N (epochs a - 1) = Inr sp
             \<and> train_search a N sp (search_train_loader a E) (epochs a) = Inr st
             \<and> params (model s3) = params (model st)))
    \<and> (epochs a < 1 \<longrightarrow> params (model s3) = build_model E (arch a) None False)"
proof -
  from search_after_succeeds [where a = a and n = "epochs a", OF li wf tn] obtain s3 :: "('p, 'o) run" where
    s3: "search_after a E N (epochs a) = Inr s3" by blast
  from complexity_succeeds [OF wf, of "params (model s3)"] obtain cf where
    cf: "complexity N (params (model s3)) = Inr cf" by blast
  let ?s = "s3\<lparr>journal := journal s3 @ [Complexity (fst cf) (snd cf),
                                           Saved (checkpoint_path (fmt_1e E) ''srch_'' a)],
                files := (files s3)(checkpoint_path (fmt_1e E) ''srch_'' a \<mapsto> params (model s3))\<rparr>"
  have res: "search_main a E N = Inr ?s"
    by (simp add: search_main_after [OF ec] s3 cf)
  have last: "\<exists>sp st. search_after a E N (epochs a - 1) = Inr sp
             \<and> train_search a N sp (search_train_loader a E) (epochs a) = Inr st
             \<and> params (model s3) = params (model st)" if e: "1 \<le> epochs a"
  proof -
    from search_after_succeeds [where a = a and n = "epochs a - 1", OF li wf tn] obtain sp :: "('p, 'o) run" where
      sp: "search_after a E N (epochs a - 1) = Inr sp" by blast
    from search_after_trains [OF e sp s3] show ?thesis using sp by blast
  qed
  have none: "params (model s3) = build_model E (arch a) None False" if e: "epochs a < 1"
  proof -
    have "[1..epochs a] = []" using e by simp
    with s3 show ?thesis
      by (auto simp: search_after_def Let_def test_search_def split: sum.splits if_splits prod.splits)
  qed
  show ?thesis using res s3 last none by (intro exI [of _ ?s] exI [of _ s3]) simp
qed

lemma ft_main_demo:
  "\<exists>s. ft_main demo_args demo_env demo_net
        = Inr (s, \<lparr>val_acc = [0 \<mapsto> 0, 1 \<mapsto> 75, 2 \<mapsto> 25], test_acc = [1 \<mapsto> 75, 2 \<mapsto> 25],
                   best_epoch = 1\<rparr>)
      \<and> files s (checkpoint_path (fmt_1e demo_env) ''ft_'' demo_args) = Some 1
      \<and> params (model s) = 2"
  by (simp add: ft_main_def demo_defs Let_def DataLoader_def test_ft_def
        batch_loss_sum_def batch_correct_def argmax_def
        upto_rec1 ft_epoch_def train_ft_def batch_loss_mean_def
        adjust_learning_rate_def schedule_lr_def rates_def checkpoint_path_def numeral_2_eq_2)

lemma ft_main_demo_tie:
  "\<exists>s. ft_main demo_args (demo_env\<lparr>build_model := (\<lambda>name found ft. 1)\<rparr>) demo_net
        = Inr (s, \<lparr>val_acc = [0 \<mapsto> 0, 1 \<mapsto> 25, 2 \<mapsto> 25], test_acc = [1 \<mapsto> 25, 2 \<mapsto> 25],
                   best_epoch = 2\<rparr>)
      \<and> files s (checkpoint_path (fmt_1e demo_env) ''ft_'' demo_args) = Some 3
      \<and> params (model s) = 3"
  by (simp add: ft_main_def demo_defs Let_def DataLoader_def test_ft_def
        batch_loss_sum_def batch_correct_def argmax_def
        upto_rec1 ft_epoch_def train_ft_def batch_loss_mean_def
        adjust_learning_rate_def schedule_lr_def rates_def checkpoint_path_def
        numeral_2_eq_2 numeral_3_eq_3)


text \<open>
  Claim C3. Every run of the fine-tune driver of at least one epoch that reaches the loop
  (CUDA in use, a non-zero log interval, non-empty validation and test splits) completes,
  and its selector is tied to the evaluations of the run: for every epoch \<open>e\<close> of
  \<open>1..epochs\<close>, the accuracy recorded in \<^verbatim>\<open>val_acc[str(e)]\<close> is the non-negative
  value that \<^verbatim>\<open>test\<close> returns on the validation loader for the model that
  \<^verbatim>\<open>train\<close> of epoch \<open>e\<close> leaves, starting from the state after \<open>e - 1\<close>
  turns of the loop. The best epoch reported at the end lies in \<open>1..epochs\<close>, no epoch has a
  greater accuracy and every later epoch has a strictly smaller one, so it is the last index
  that achieves the maximum; the checkpoint file then holds the parameters that the training
  of that epoch left. The first \<^verbatim>\<open>torch.save\<close> of the run directly follows the
  two evaluations of epoch 1, which only the optimizer steps and progress lines of epoch 1
  precede, and after one turn of the loop the best epoch is 1 and the file holds the
  parameters of the model of epoch 1, because the baseline \<^verbatim>\<open>val_acc['0']\<close> is
  0.0. The final summary prints the best epoch with its validation accuracy.
\<close>

theorem best_epoch_is_last_maximum:
  assumes "\<not> no_cuda a" and "cuda_available E" and "log_interval a \<noteq> 0"
      and "val_data E \<noteq> []" and "test_data E \<noteq> []" and "1 \<le> epochs a"
  shows "\<exists>(s :: ('p, 'o) run) k vb tb pre rv rt post.
      ft_main a E N = Inr (s, k)
    \<and> 1 \<le> best_epoch k \<and> best_epoch k \<le> epochs a
    \<and> val_acc k (best_epoch k) = Some vb
    \<and> (\<forall>e. 1 \<le> e \<and> e \<le> epochs a \<longrightarrow>
          (\<exists>(sp :: ('p, 'o) run) kp st (se :: ('p, 'o) run) ke r v.
              ft_after a E N (e - 1) = Inr (sp, kp)
            \<and> train_ft a N sp (ft_train_loader a E) e = Inr st
            \<and> ft_after a E N e = Inr (se, ke) \<and> params (model se) = params (model st)
            \<and> test_ft N (model st) (ft_val_loader a E) ''Validation'' = Inr r \<and> returned r = Some v
            \<and> val_acc k e = Some v \<and> 0 \<le> v \<and> v \<le> vb \<and> (best_epoch k < e \<longrightarrow> v < vb)
            \<and> (e = best_epoch k \<longrightarrow>
                  files s (checkpoint_path (fmt_1e E) ''ft_'' a) = Some (params (model st)))))
    \<and> journal s = pre @ [Report rv, Report rt, Saved (checkpoint_path (fmt_1e E) ''ft_'' a)] @ post
                     @ [Summary ''Best Val Acc'' vb (best_epoch k), Summary ''Test Acc'' tb (best_epoch k)]
    \<and> (\<forall>ev\<in>set pre. ev = Step 1 [lr a] \<or> (\<exists>pl. ev = Progress pl))
    \<and> (\<exists>(s1 :: ('p, 'o) run) k1. ft_after a E N 1 = Inr (s1, k1) \<and> best_epoch k1 = 1
          \<and> files s1 (checkpoint_path (fmt_1e E) ''ft_'' a) = Some (params (model s1)))"
proof -
  from ft_main_run [OF assms, of N] obtain s :: "('p, 'o) run" and k vb tb pre rv rt post where
    r: "ft_main a E N = Inr (s, k)"
    and vb: "val_acc k (best_epoch k) = Some vb"
    and j: "journal s = pre @ [Report rv, Report rt, Saved (checkpoint_path (fmt_1e E) ''ft_'' a)] @ post
                     @ [Summary ''Best Val Acc'' vb (best_epoch k), Summary ''Test Acc'' tb (best_epoch k)]"
    and pre: "\<forall>ev\<in>set pre. ev = Step 1 [lr a] \<or> (\<exists>pl. ev = Progress pl)"
    by blast
  from ft_main_history [OF assms, of N] obtain s' :: "('p, 'o) run" and k' vb' where
    r': "ft_main a E N = Inr (s', k')"
    and h: "1 \<le> best_epoch k'" "best_epoch k' \<le> epochs a" "val_acc k' (best_epoch k') = Some vb'"
      "(\<forall>e. 1 \<le> e \<and> e \<le> epochs a \<longrightarrow>
          (\<exists>(sp :: ('p, 'o) run) kp st (se :: ('p, 'o) run) ke r v.
              ft_after a E N (e - 1) = Inr (sp, kp)
            \<and> train_ft a N sp (ft_train_loader a E) e = Inr st
            \<and> ft_after a E N e = Inr (se, ke) \<and> params (model se) = params (model st)
            \<and> test_ft N (model st) (ft_val_loader a E) ''Validation'' = Inr r \<and> returned r = Some v
            \<and> val_acc k' e = Some v \<and> 0 \<le> v \<and> v \<le> vb' \<and> (best_epoch k' < e \<longrightarrow> v < vb')
            \<and> (e = best_epoch k' \<longrightarrow>
                  files s' (checkpoint_path (fmt_1e E) ''ft_'' a) = Some (params (model st)))))"
      "\<exists>(s1 :: ('p, 'o) run) k1. ft_after a E N 1 = Inr (s1, k1) \<and> best_epoch k1 = 1
          \<and> files s1 (checkpoint_path (fmt_1e E) ''ft_'' a) = Some (params (model s1))"
    by blast
  have same: "s' = s" "k' = k" using r r' by simp_all
  have vsame: "vb' = vb" using h(3) vb unfolding same by simp
  show ?thesis
    using r h(1,2,4,5) vb j pre unfolding same vsame by blast
qed

theorem best_epoch_is_last_maximum_witness:
  "\<exists>(s :: (nat, unit) run) k vb tb pre rv rt post.
      ft_main demo_args demo_env demo_net = Inr (s, k)
    \<and> 1 \<le> best_epoch k \<and> best_epoch k \<le> 2
    \<and> val_acc k (best_epoch k) = Some vb
    \<and> (\<forall>e. 1 \<le> e \<and> e \<le> 2 \<longrightarrow>
          (\<exists>(sp :: (nat, unit) run) kp st (se :: (nat, unit) run) ke r v.
              ft_after demo_args demo_env demo_net (e - 1) = Inr (sp, kp)
            \<and> train_ft demo_args demo_net sp (ft_train_loader demo_args demo_env) e = Inr st
            \<and> ft_after demo_args demo_env demo_net e = Inr (se, ke) \<and> params (model se) = params (model st)
            \<and> test_ft demo_net (model st) (ft_val_loader demo_args demo_env) ''Validation'' = Inr r \<and> returned r = Some v
            \<and> val_acc k e = Some v \<and> 0 \<le> v \<and> v \<le> vb \<and> (best_epoch k < e \<longrightarrow> v < vb)
            \<and> (e = best_epoch k \<longrightarrow>
                  files s (checkpoint_path (fmt_1e demo_env) ''ft_'' demo_args) = Some (params (model st)))))
    \<and> journal s = pre @ [Report rv, Report rt, Saved (checkpoint_path (fmt_1e demo_env) ''ft_'' demo_args)] @ post
                     @ [Summary ''Best Val Acc'' vb (best_epoch k), Summary ''Test Acc'' tb (best_epoch k)]
    \<and> (\<forall>ev\<in>set pre. ev = Step 1 [1 / 100] \<or> (\<exists>pl. ev = Progress pl))
    \<and> (\<exists>(s1 :: (nat, unit) run) k1. ft_after demo_args demo_env demo_net 1 = Inr (s1, k1) \<and> best_epoch k1 = 1
          \<and> files s1 (checkpoint_path (fmt_1e demo_env) ''ft_'' demo_args) = Some (params (model s1)))
    \<and> best_epoch k = 1 \<and> val_acc k 1 = Some 75 \<and> val_acc k 2 = Some 25"
proof -
  have e: "epochs demo_args = 2" and l: "lr demo_args = 1 / 100" by (simp_all add: demo_args_def)
  from best_epoch_is_last_maximum [OF demo_ft_preconditions(1-6), of demo_net]
  obtain s :: "(nat, unit) run" and k vb tb pre rv rt post where
    w: "ft_main demo_args demo_env demo_net = Inr (s, k)
    \<and> 1 \<le> best_epoch k \<and> best_epoch k \<le> 2
    \<and> val_acc k (best_epoch k) = Some vb
    \<and> (\<forall>e. 1 \<le> e \<and> e \<le> 2 \<longrightarrow>
          (\<exists>(sp :: (nat, unit) run) kp st (se :: (nat, unit) run) ke r v.
              ft_after demo_args demo_env demo_net (e - 1) = Inr (sp, kp)
            \<and> train_ft demo_args demo_net sp (ft_train_loader demo_args demo_env) e = Inr st
            \<and> ft_after demo_args demo_env demo_net e = Inr (se, ke) \<and> params (model se) = params (model st)
            \<and> test_ft demo_net (model st) (ft_val_loader demo_args demo_env) ''Validation'' = Inr r \<and> returned r = Some v
            \<and> val_acc k e = Some v \<and> 0 \<le> v \<and> v \<le> vb \<and> (best_epoch k < e \<longrightarrow> v < vb)
            \<and> (e = best_epoch k \<longrightarrow>
                  files s (checkpoint_path (fmt_1e demo_env) ''ft_'' demo_args) = Some (params (model st)))))
    \<and> journal s = pre @ [Report rv, Report rt, Saved (checkpoint_path (fmt_1e demo_env) ''ft_'' demo_args)] @ post
                     @ [Summary ''Best Val Acc'' vb (best_epoch k), Summary ''Test Acc'' tb (best_epoch k)]
    \<and> (\<forall>ev\<in>set pre. ev = Step 1 [1 / 100] \<or> (\<exists>pl. ev = Progress pl))
    \<and> (\<exists>(s1 :: (nat, unit) run) k1. ft_after demo_args demo_env demo_net 1 = Inr (s1, k1) \<and> best_epoch k1 = 1
          \<and> files s1 (checkpoint_path (fmt_1e demo_env) ''ft_'' demo_args) = Some (params (model s1)))"
    unfolding e l by blast
  from ft_main_demo w have "best_epoch k = 1 \<and> val_acc k 1 = Some 75 \<and> val_acc k 2 = Some 25" by auto
  with w show ?thesis by blast
qed

text \<open>
  Claim C5, amended. With a non-zero log interval and a non-empty test split, each driver
  completes and leaves one checkpoint file, at the path made of its prefix, the
  architecture name, the size target and the ops-decay coefficient. For the fine-tune
  driver (CUDA in use, a non-empty validation split, at least one epoch) the file holds the
  parameters that \<^verbatim>\<open>train\<close> of the best epoch left, starting from the state after
  the turns of the loop before it; the validation accuracy of that model is the one
  recorded for the best epoch, the accuracy recorded for any epoch is the one
  \<^verbatim>\<open>test\<close> returns for the model trained in that epoch, none is greater and
  every later one is strictly smaller: the file is the model of the last epoch with the
  best validation accuracy. For the search driver (a model with non-empty size and ops
  dictionaries, no complexity report) the file holds the parameters of the model at the
  end of the run, which are those the training of the last epoch left (those of the
  freshly built model when there is no epoch), whatever accuracies were printed.
\<close>

theorem checkpoint_contents:
  assumes "log_interval a \<noteq> 0" and "test_data E \<noteq> []"
  shows "(\<not> no_cuda a \<and> cuda_available E \<and> val_data E \<noteq> [] \<and> 1 \<le> epochs a \<longrightarrow>
           (\<exists>(s :: ('p, 'o) run) k (sp :: ('p, 'o) run) kp st r vb.
               ft_main a E N = Inr (s, k)
             \<and> 1 \<le> best_epoch k \<and> best_epoch k \<le> epochs a
             \<and> ft_after a E N (best_epoch k - 1) = Inr (sp, kp)
             \<and> train_ft a N sp (ft_train_loader a E) (best_epoch k) = Inr st
             \<and> files s (checkpoint_path (fmt_1e E) ''ft_'' a) = Some (params (model st))
             \<and> test_ft N (model st) (ft_val_loader a E) ''Validation'' = Inr r
             \<and> returned r = Some vb
             \<and> val_acc k (best_epoch k) = Some vb
             \<and> (\<forall>e. 1 \<le> e \<and> e \<le> epochs a \<longrightarrow>
                   (\<exists>(sp' :: ('p, 'o) run) kp' st' r' v.
                       ft_after a E N (e - 1) = Inr (sp', kp')
                     \<and> train_ft a N sp' (ft_train_loader a E) e = Inr st'
                     \<and> test_ft N (model st') (ft_val_loader a E) ''Validation'' = Inr r'
                     \<and> returned r' = Some v
                     \<and> val_acc k e = Some v \<and> v \<le> vb \<and> (best_epoch k < e \<longrightarrow> v < vb)))))
       \<and> ((\<forall>p. size_dict N p \<noteq> [] \<and> ops_dict N p \<noteq> []) \<and> \<not> eval_complexity a \<longrightarrow>
           (\<exists>(s :: ('p, 'o) run) s3.
               search_main a E N = Inr s
             \<and> search_after a E N (epochs a) = Inr s3
             \<and> params (model s) = params (model s3)
             \<and> files s (checkpoint_path (fmt_1e E) ''srch_'' a) = Some (params (model s3))
             \<and> (1 \<le> epochs a \<longrightarrow>
                   (\<exists>sp st. search_after a E N (epochs a - 1) = Inr sp
                      \<and> train_search a N sp (search_train_loader a E) (epochs a) = Inr st
                      \<and> params (model s3) = params (model st)))
             \<and> (epochs a < 1 \<longrightarrow> params (model s3) = build_model E (arch a) None False)))"
proof -
  have ft: "(\<exists>(s :: ('p, 'o) run) k (sp :: ('p, 'o) run) kp st r vb.
               ft_main a E N = Inr (s, k)
             \<and> 1 \<le> best_epoch k \<and> best_epoch k \<le> epochs a
             \<and> ft_after a E N (best_epoch k - 1) = Inr (sp, kp)
             \<and> train_ft a N sp (ft_train_loader a E) (best_epoch k) = Inr st
             \<and> files s (checkpoint_path (fmt_1e E) ''ft_'' a) = Some (params (model st))
             \<and> test_ft N (model st) (ft_val_loader a E) ''Validation'' = Inr r
             \<and> returned r = Some vb
             \<and> val_acc k (best_epoch k) = Some vb
             \<and> (\<forall>e. 1 \<le> e \<and> e \<le> epochs a \<longrightarrow>
                   (\<exists>(sp' :: ('p, 'o) run) kp' st' r' v.
                       ft_after a E N (e - 1) = Inr (sp', kp')
                     \<and> train_ft a N sp' (ft_train_loader a E) e = Inr st'
                     \<and> test_ft N (model st') (ft_val_loader a E) ''Validation'' = Inr r'
                     \<and> returned r' = Some v
                     \<and> val_acc k e = Some v \<and> v \<le> vb \<and> (best_epoch k < e \<longrightarrow> v < vb))))"
    if c: "\<not> no_cuda a" "cuda_available E" "val_data E \<noteq> []" "1 \<le> epochs a"
  proof -
    from ft_main_history [OF c(1,2) assms(1) c(3) assms(2) c(4), of N]
    obtain s :: "('p, 'o) run" and k vb where
      r: "ft_main a E N = Inr (s, k)"
      and b: "1 \<le> best_epoch k" "best_epoch k \<le> epochs a"
      and vb: "val_acc k (best_epoch k) = Some vb"
      and per: "(\<forall>e. 1 \<le> e \<and> e \<le> epochs a \<longrightarrow>
          (\<exists>(sp :: ('p, 'o) run) kp st (se :: ('p, 'o) run) ke r v.
              ft_after a E N (e - 1) = Inr (sp, kp)
            \<and> train_ft a N sp (ft_train_loader a E) e = Inr st
            \<and> ft_after a E N e = Inr (se, ke) \<and> params (model se) = params (model st)
            \<and> test_ft N (model st) (ft_val_loader a E) ''Validation'' = Inr r \<and> returned r = Some v
            \<and> val_acc k e = Some v \<and> 0 \<le> v \<and> v \<le> vb \<and> (best_epoch k < e \<longrightarrow> v < vb)
            \<and> (e = best_epoch k \<longrightarrow>
                  files s (checkpoint_path (fmt_1e E) ''ft_'' a) = Some (params (model st)))))"
      by blast
    from per b obtain sp :: "('p, 'o) run" and kp st r0 v0 where
      best: "ft_after a E N (best_epoch k - 1) = Inr (sp, kp)"
            "train_ft a N sp (ft_train_loader a E) (best_epoch k) = Inr st"
            "test_ft N (model st) (ft_val_loader a E) ''Validation'' = Inr r0"
            "returned r0 = Some v0" "val_acc k (best_epoch k) = Some v0"
            "files s (checkpoint_path (fmt_1e E) ''ft_'' a) = Some (params (model st))"
      by blast
    have v0: "v0 = vb" using best(5) vb by simp
    have all: "\<forall>e. 1 \<le> e \<and> e \<le> epochs a \<longrightarrow>
                   (\<exists>(sp' :: ('p, 'o) run) kp' st' r' v.
                       ft_after a E N (e - 1) = Inr (sp', kp')
                     \<and> train_ft a N sp' (ft_train_loader a E) e = Inr st'
                     \<and> test_ft N (model st') (ft_val_loader a E) ''Validation'' = Inr r'
                     \<and> returned r' = Some v
                     \<and> val_acc k e = Some v \<and> v \<le> vb \<and> (best_epoch k < e \<longrightarrow> v < vb))"
      using per by blast
    show ?thesis
      using r b best(1,2,6,3) best(4) [unfolded v0] vb all by blast
  qed
  have sr: "(\<exists>(s :: ('p, 'o) run) s3.
               search_main a E N = Inr s
             \<and> search_after a E N (epochs a) = Inr s3
             \<and> params (model s) = params (model s3)
             \<and> files s (checkpoint_path (fmt_1e E) ''srch_'' a) = Some (params (model s3))
             \<and> (1 \<le> epochs a \<longrightarrow>
                   (\<exists>sp st. search_after a E N (epochs a - 1) = Inr sp
                      \<and> train_search a N sp (search_train_loader a E) (epochs a) = Inr st
                      \<and> params (model s3) = params (model st)))
             \<and> (epochs a < 1 \<longrightarrow> params (model s3) = build_model E (arch a) None False))"
    if w: "\<forall>p. size_dict N p \<noteq> [] \<and> ops_dict N p \<noteq> []" "\<not> eval_complexity a"
    by (rule search_main_history [OF assms(1) w(1) assms(2) w(2)])
  show ?thesis using ft sr by blast
qed

theorem checkpoint_contents_witness:
  "(\<exists>(s :: (nat, unit) run) k (sp :: (nat, unit) run) kp st r vb.
               ft_main demo_args (demo_env\<lparr>build_model := (\<lambda>name found ft. 1)\<rparr>) demo_net = Inr (s, k)
             \<and> 1 \<le> best_epoch k \<and> best_epoch k \<le> 2
             \<and> ft_after demo_args (demo_env\<lparr>build_model := (\<lambda>name found ft. 1)\<rparr>) demo_net (best_epoch k - 1) = Inr (sp, kp)
             \<and> train_ft demo_args demo_net sp (ft_train_loader demo_args (demo_env\<lparr>build_model := (\<lambda>name found ft. 1)\<rparr>)) (best_epoch k) = Inr st
             \<and> files s (checkpoint_path (fmt_1e (demo_env\<lparr>build_model := (\<lambda>name found ft. 1)\<rparr>)) ''ft_'' demo_args) = Some (params (model st))
             \<and> test_ft demo_net (model st) (ft_val_loader demo_args (demo_env\<lparr>build_model := (\<lambda>name found ft. 1)\<rparr>)) ''Validation'' = Inr r
             \<and> returned r = Some vb
             \<and> val_acc k (best_epoch k) = Some vb
             \<and> (\<forall>e. 1 \<le> e \<and> e \<le> 2 \<longrightarrow>
                   (\<exists>(sp' :: (nat, unit) run) kp' st' r' v.
                       ft_after demo_args (demo_env\<lparr>build_model := (\<lambda>name found ft. 1)\<rparr>) demo_net (e - 1) = Inr (sp', kp')
                     \<and> train_ft demo_args demo_net sp' (ft_train_loader demo_args (demo_env\<lparr>build_model := (\<lambda>name found ft. 1)\<rparr>)) e = Inr st'
                     \<and> test_ft demo_net (model st') (ft_val_loader demo_args (demo_env\<lparr>build_model := (\<lambda>name found ft. 1)\<rparr>)) ''Validation'' = Inr r'
                     \<and> returned r' = Some v
                     \<and> val_acc k e = Some v \<and> v \<le> vb \<and> (best_epoch k < e \<longrightarrow> v < vb))))
   \<and> (\<exists>(s :: (nat, unit) run) s3.
               search_main demo_args demo_env demo_net = Inr s
             \<and> search_after demo_args demo_env demo_net (2) = Inr s3
             \<and> params (model s) = params (model s3)
             \<and> files s (checkpoint_path (fmt_1e demo_env) ''srch_'' demo_args) = Some (params (model s3))
             \<and> (1 \<le> (2::int) \<longrightarrow>
                   (\<exists>sp st. search_after demo_args demo_env demo_net (2 - 1) = Inr sp
                      \<and> train_search demo_args demo_net sp (search_train_loader demo_args demo_env) (2) = Inr st
                      \<and> params (model s3) = params (model st)))
             \<and> ((2::int) < 1 \<longrightarrow> params (model s3) = build_model demo_env (arch demo_args) None False))
   \<and> (\<exists>(s :: (nat, unit) run) k.
         ft_main demo_args (demo_env\<lparr>build_model := (\<lambda>name found ft. 1)\<rparr>) demo_net = Inr (s, k)
       \<and> val_acc k 1 = Some 25 \<and> val_acc k 2 = Some 25 \<and> best_epoch k = 2
       \<and> files s (checkpoint_path (fmt_1e demo_env) ''ft_'' demo_args) = Some 3)"
proof -
  let ?E = "demo_env\<lparr>build_model := (\<lambda>name found ft. 1)\<rparr>"
  have e: "epochs demo_args = 2" by (simp add: demo_args_def)
  have pre: "log_interval demo_args \<noteq> 0" "test_data ?E \<noteq> []"
    "\<not> no_cuda demo_args \<and> cuda_available ?E \<and> val_data ?E \<noteq> [] \<and> 1 \<le> epochs demo_args"
    by (simp_all add: demo_defs)
  have w: "(\<forall>p. size_dict demo_net p \<noteq> [] \<and> ops_dict demo_net p \<noteq> []) \<and> \<not> eval_complexity demo_args"
    by (simp add: demo_defs)
  from checkpoint_contents [OF pre(1,2), of demo_net] pre(3)
  have a: "(\<exists>(s :: (nat, unit) run) k (sp :: (nat, unit) run) kp st r vb.
               ft_main demo_args (demo_env\<lparr>build_model := (\<lambda>name found ft. 1)\<rparr>) demo_net = Inr (s, k)
             \<and> 1 \<le> best_epoch k \<and> best_epoch k \<le> 2
             \<and> ft_after demo_args (demo_env\<lparr>build_model := (\<lambda>name found ft. 1)\<rparr>) demo_net (best_epoch k - 1) = Inr (sp, kp)
             \<and> train_ft demo_args demo_net sp (ft_train_loader demo_args (demo_env\<lparr>build_model := (\<lambda>name found ft. 1)\<rparr>)) (best_epoch k) = Inr st
             \<and> files s (checkpoint_path (fmt_1e (demo_env\<lparr>build_model := (\<lambda>name found ft. 1)\<rparr>)) ''ft_'' demo_args) = Some (params (model st))
             \<and> test_ft demo_net (model st) (ft_val_loader demo_args (demo_env\<lparr>build_model := (\<lambda>name found ft. 1)\<rparr>)) ''Validation'' = Inr r
             \<and> returned r = Some vb
             \<and> val_acc k (best_epoch k) = Some vb
             \<and> (\<forall>e. 1 \<le> e \<and> e \<le> 2 \<longrightarrow>
                   (\<exists>(sp' :: (nat, unit) run) kp' st' r' v.
                       ft_after demo_args (demo_env\<lparr>build_model := (\<lambda>name found ft. 1)\<rparr>) demo_net (e - 1) = Inr (sp', kp')
                     \<and> train_ft demo_args demo_net sp' (ft_train_loader demo_args (demo_env\<lparr>build_model := (\<lambda>name found ft. 1)\<rparr>)) e = Inr st'
                     \<and> test_ft demo_net (model st') (ft_val_loader demo_args (demo_env\<lparr>build_model := (\<lambda>name found ft. 1)\<rparr>)) ''Validation'' = Inr r'
                     \<and> returned r' = Some v
                     \<and> val_acc k e = Some v \<and> v \<le> vb \<and> (best_epoch k < e \<longrightarrow> v < vb))))"
    unfolding e by blast
  note cc = checkpoint_contents [OF demo_ft_preconditions(3,5), of demo_net, unfolded e]
  have b: "(\<exists>(s :: (nat, unit) run) s3.
               search_main demo_args demo_env demo_net = Inr s
             \<and> search_after demo_args demo_env demo_net (2) = Inr s3
             \<and> params (model s) = params (model s3)
             \<and> files s (checkpoint_path (fmt_1e demo_env) ''srch_'' demo_args) = Some (params (model s3))
             \<and> (1 \<le> (2::int) \<longrightarrow>
                   (\<exists>sp st. search_after demo_args demo_env demo_net (2 - 1) = Inr sp
                      \<and> train_search demo_args demo_net sp (search_train_loader demo_args demo_env) (2) = Inr st
                      \<and> params (model s3) = params (model st)))
             \<and> ((2::int) < 1 \<longrightarrow> params (model s3) = build_model demo_env (arch demo_args) None False))"
    by (rule mp [OF conjunct2 [OF cc] w])
  have c: "\<exists>(s :: (nat, unit) run) k.
         ft_main demo_args ?E demo_net = Inr (s, k)
       \<and> val_acc k 1 = Some 25 \<and> val_acc k 2 = Some 25 \<and> best_epoch k = 2
       \<and> files s (checkpoint_path (fmt_1e demo_env) ''ft_'' demo_args) = Some 3"
    using ft_main_demo_tie by auto
  show ?thesis using a b c by blast
qed

end
